theory Spec2Isabelle
  imports Complex_Main
begin

section \<open>Core data models (core/models.py)\<close>

datatype PluginStatus = REGISTERED | INITIALIZING | ACTIVE | ERROR

datatype DependencyType = REQUIRED | OPTIONAL

datatype DependencyScope = RUNTIME | TEST

record DependencySpec =
  spec_name :: string
  spec_version :: string
  spec_type :: DependencyType
  spec_scope :: DependencyScope

record TableFormat =
  tf_name :: string
  tf_version :: string
  tf_dependencies :: "(string \<times> string) list"
  tf_enabled :: bool
  tf_status :: PluginStatus

text \<open>
  A Python dict is an association list in insertion order; its keys are distinct.
  The \<open>format\<close> of a \<open>PluginMetadata\<close> is owned by that metadata object alone, so it is
  nested by value.
\<close>

record PluginMetadata =
  md_id :: string
  md_name :: string
  md_version :: string
  md_format :: TableFormat
  md_interfaces :: "string list"
  md_dependencies :: "(string \<times> DependencySpec) list"

record ValidationResult =
  is_valid :: bool
  errors :: "string list"
  warnings :: "string list"

record CompatibilityResult =
  is_compatible :: bool
  conflicts :: "(string \<times> string) list list"

text \<open>
  The outcome of a call that may raise. \<open>Raises s\<close> is an instance of (a subclass of)
  Python's \<open>Exception\<close> whose \<open>str\<close> is \<open>s\<close>: the exceptions that
  \<open>except Exception\<close> catches.
\<close>

datatype 'a outcome = Returns 'a | Raises string

text \<open>
  An awaited plugin action can also be left by an exception that is not an \<open>Exception\<close>:
  \<open>asyncio.CancelledError\<close> when the task is cancelled, \<open>KeyboardInterrupt\<close>,
  \<open>SystemExit\<close>. \<open>except Exception\<close> does not catch these. \<open>Settles o\<close> is a call that
  returns or raises an \<open>Exception\<close>, as \<open>o\<close> says; \<open>Escapes s\<close> is a call left by such a
  \<open>BaseException\<close> whose \<open>str\<close> is \<open>s\<close>. The same type gives what a registry operation
  that awaits the action does for its caller: \<open>Settles (Returns r)\<close> returns the result
  \<open>r\<close>, and the other two are the exception that leaves the operation.
\<close>

datatype 'a awaited = Settles "'a outcome" | Escapes string

section \<open>Python string rendering used in messages\<close>

definition py_escape_char :: "char \<Rightarrow> char \<Rightarrow> string" where
  "py_escape_char q c =
     (if c = q \<or> c = CHR 0x5C then [CHR 0x5C, c]
      else if c = CHR 0x0A then [CHR 0x5C, CHR ''n'']
      else if c = CHR 0x0D then [CHR 0x5C, CHR ''r'']
      else if c = CHR 0x09 then [CHR 0x5C, CHR ''t'']
      else [c])"

text \<open>
  \<open>repr\<close> of a \<open>str\<close>: double quotes when the text has a single quote and no double
  quote, single quotes otherwise; the quote, the backslash, newline, carriage return and
  tab are escaped. (Python writes the other non-printable characters as hexadecimal
  escapes; no message of the registry depends on them.)
\<close>

definition py_repr_str :: "string \<Rightarrow> string" where
  "py_repr_str s =
     (let q = (if CHR 0x27 \<in> set s \<and> CHR 0x22 \<notin> set s then CHR 0x22 else CHR 0x27)
      in [q] @ concat (map (py_escape_char q) s) @ [q])"

fun py_join :: "string \<Rightarrow> string list \<Rightarrow> string" where
  "py_join sep [] = []"
| "py_join sep [x] = x"
| "py_join sep (x # y # ys) = x @ sep @ py_join sep (y # ys)"

definition py_repr_dict :: "(string \<times> string) list \<Rightarrow> string" where
  "py_repr_dict d =
     ''{'' @ py_join '', '' (map (\<lambda>(k, v). py_repr_str k @ '': '' @ py_repr_str v) d) @ ''}''"

definition py_repr_conflicts :: "(string \<times> string) list list \<Rightarrow> string" where
  "py_repr_conflicts cs = ''['' @ py_join '', '' (map py_repr_dict cs) @ '']''"

section \<open>The plugin interface (core/plugins/base.py)\<close>

text \<open>
  A plugin is an opaque collaborator. The registry reads its identity, tests its truth
  value (\<open>plugin_truthy\<close> is \<open>bool(plugin)\<close>: true unless the plugin's class defines
  \<open>__bool__\<close> or \<open>__len__\<close> to say otherwise) and walks the method resolution order of
  its class; the outcome of each awaited plugin call
  (\<open>check_version_compatibility\<close>, \<open>validate_dependencies\<close>, \<open>initialize\<close>,
  \<open>shutdown\<close>) is an argument of the registry operation that makes the call, so that a
  plugin may answer differently from one call to the next.
\<close>

record pyclass =
  cls_name :: string
  cls_is_object :: bool
  cls_has_abstractmethods :: bool

record plugin =
  plugin_id :: string
  plugin_name :: string
  plugin_version :: string
  plugin_truthy :: bool
  plugin_mro :: "pyclass list"

section \<open>The plugin registry (core/plugins/registry.py)\<close>

text \<open>
  \<open>PluginMetadata\<close> objects are mutable and shared with callers
  (\<open>get_plugin_metadata\<close> and the \<open>metadata\<close> accessor hand out references), so they
  live in an explicit store of objects by address; \<open>next_ref\<close> is the next free address.
  The three containers are private to the registry and are only ever handed out as
  copies, so they are held by value: \<open>priv_plugins\<close> is \<open>_plugins\<close>, \<open>priv_metadata\<close> is
  \<open>_metadata\<close> (plugin id to the address of its metadata object), and
  \<open>priv_active_formats\<close> is \<open>_active_formats\<close>.
\<close>

record registry_state =
  store :: "nat \<Rightarrow> PluginMetadata"
  next_ref :: nat
  priv_plugins :: "(string \<times> plugin) list"
  priv_metadata :: "(string \<times> nat) list"
  priv_active_formats :: "string list"

definition new_registry :: "(nat \<Rightarrow> PluginMetadata) \<Rightarrow> registry_state" where
  "new_registry h =
     \<lparr>store = h, next_ref = 0, priv_plugins = [], priv_metadata = [], priv_active_formats = []\<rparr>"

text \<open>\<open>d[k] = v\<close> on a dict: replace in place when the key is present, append otherwise.\<close>

definition dict_set :: "'k \<Rightarrow> 'v \<Rightarrow> ('k \<times> 'v) list \<Rightarrow> ('k \<times> 'v) list" where
  "dict_set k v d =
     (if k \<in> fst ` set d then map (\<lambda>(k', v'). if k' = k then (k', v) else (k', v')) d
      else d @ [(k, v)])"

text \<open>\<open>metadata.format.status = s\<close> on the object at address \<open>a\<close>.\<close>

definition set_status :: "registry_state \<Rightarrow> nat \<Rightarrow> PluginStatus \<Rightarrow> registry_state" where
  "set_status st a s =
     st\<lparr>store := (store st)(a := (store st a)\<lparr>md_format := (md_format (store st a))\<lparr>tf_status := s\<rparr>\<rparr>)\<rparr>"

definition get_implemented_interfaces :: "plugin \<Rightarrow> string list" where
  "get_implemented_interfaces p =
     map cls_name
       (filter (\<lambda>base. \<not> cls_is_object base \<and> cls_has_abstractmethods base) (plugin_mro p))"

text \<open>
  \<open>register_plugin\<close>. Neither of its two awaited plugin calls stands inside a \<open>try\<close>: an
  exception of either call leaves \<open>register_plugin\<close> as it is, with nothing written to the
  registry.
\<close>

definition register_plugin ::
  "registry_state \<Rightarrow> plugin \<Rightarrow> (plugin list \<Rightarrow> CompatibilityResult outcome) \<Rightarrow>
   ValidationResult outcome \<Rightarrow> ValidationResult outcome \<times> registry_state" where
  "register_plugin st p check_version_compatibility validate_dependencies =
     (if plugin_id p \<in> fst ` set (priv_plugins st) then
        (Returns \<lparr>is_valid = False,
                  errors = [''Plugin '' @ plugin_id p @ '' is already registered''],
                  warnings = []\<rparr>, st)
      else
        (case check_version_compatibility (map snd (priv_plugins st)) of
           Raises e \<Rightarrow> (Raises e, st)
         | Returns compat_result \<Rightarrow>
             if \<not> is_compatible compat_result then
               (Returns \<lparr>is_valid = False,
                         errors = [''Version compatibility check failed: '' @
                                   py_repr_conflicts (conflicts compat_result)],
                         warnings = []\<rparr>, st)
             else
               (case validate_dependencies of
                  Raises e \<Rightarrow> (Raises e, st)
                | Returns dep_result \<Rightarrow>
                    if \<not> is_valid dep_result then
                      (Returns \<lparr>is_valid = False, errors = errors dep_result, warnings = []\<rparr>, st)
                    else
                      (let format_info =
                             \<lparr>tf_name = plugin_name p, tf_version = plugin_version p,
                              tf_dependencies = [], tf_enabled = True, tf_status = REGISTERED\<rparr>;
                           metadata =
                             \<lparr>md_id = plugin_id p, md_name = plugin_name p,
                              md_version = plugin_version p, md_format = format_info,
                              md_interfaces = get_implemented_interfaces p,
                              md_dependencies = []\<rparr>;
                           a = next_ref st
                       in (Returns \<lparr>is_valid = True, errors = [], warnings = []\<rparr>,
                           st\<lparr>store := (store st)(a := metadata),
                              next_ref := Suc a,
                              priv_plugins := dict_set (plugin_id p) p (priv_plugins st),
                              priv_metadata := dict_set (plugin_id p) a (priv_metadata st)\<rparr>)))))"

text \<open>
  \<open>if not plugin\<close> on the value of \<open>self._plugins.get(plugin_id)\<close>: true for \<open>None\<close> (no
  such key) and for a plugin object whose truth value is false.
\<close>

fun not_plugin :: "plugin option \<Rightarrow> bool" where
  "not_plugin None = True"
| "not_plugin (Some p) = (\<not> plugin_truthy p)"

text \<open>
  \<open>initialize_plugin\<close>. The status is set to \<open>INITIALIZING\<close> before the plugin's
  initialize action is awaited; an \<open>Exception\<close> of the action is caught and sets \<open>ERROR\<close>,
  any other exception leaves the operation with the status still \<open>INITIALIZING\<close>. When
  \<open>_metadata\<close> has no entry for a plugin that \<open>_plugins\<close> has,
  \<open>self._metadata[plugin_id]\<close> raises \<open>KeyError\<close> inside the \<open>try\<close>, and the handler
  then reads the local \<open>metadata\<close> that was never bound: that \<open>UnboundLocalError\<close>
  leaves the operation (its text is the one of Python 3.11 and later).
\<close>

definition initialize_plugin ::
  "registry_state \<Rightarrow> string \<Rightarrow> unit awaited \<Rightarrow> ValidationResult awaited \<times> registry_state" where
  "initialize_plugin st pid initialize =
     (if not_plugin (map_of (priv_plugins st) pid) then
        (Settles (Returns \<lparr>is_valid = False, errors = [''Plugin '' @ pid @ '' not found''],
                           warnings = []\<rparr>), st)
      else
        (case map_of (priv_metadata st) pid of
           None \<Rightarrow>
             (Settles (Raises (''cannot access local variable '' @ py_repr_str ''metadata'' @
                               '' where it is not associated with a value'')), st)
         | Some metadata \<Rightarrow>
             (let st1 = set_status st metadata INITIALIZING in
              (case initialize of
                 Settles (Returns u) \<Rightarrow>
                   (let st2 = set_status st1 metadata ACTIVE;
                        st3 = (if pid \<notin> set (priv_active_formats st2)
                               then st2\<lparr>priv_active_formats := priv_active_formats st2 @ [pid]\<rparr>
                               else st2)
                    in (Settles (Returns \<lparr>is_valid = True, errors = [], warnings = []\<rparr>), st3))
               | Settles (Raises e) \<Rightarrow>
                   (Settles (Returns
                      \<lparr>is_valid = False,
                       errors = [''Failed to initialize plugin '' @ pid @ '': '' @ e],
                       warnings = []\<rparr>),
                    set_status st1 metadata ERROR)
               | Escapes e \<Rightarrow> (Escapes e, st1)))))"

text \<open>
  \<open>shutdown_plugin\<close>. An \<open>Exception\<close> of the plugin's shutdown action is caught and
  folded into a failure result; any other exception leaves the operation. A missing
  \<open>_metadata\<close> entry raises \<open>KeyError\<close> after the shutdown action has run; the handler
  folds it into a failure result too (the \<open>str\<close> of a \<open>KeyError\<close> is the \<open>repr\<close> of its
  key).
\<close>

definition shutdown_plugin ::
  "registry_state \<Rightarrow> string \<Rightarrow> unit awaited \<Rightarrow> ValidationResult awaited \<times> registry_state" where
  "shutdown_plugin st pid shutdown =
     (if not_plugin (map_of (priv_plugins st) pid) then
        (Settles (Returns \<lparr>is_valid = False, errors = [''Plugin '' @ pid @ '' not found''],
                           warnings = []\<rparr>), st)
      else
        (case shutdown of
           Escapes e \<Rightarrow> (Escapes e, st)
         | Settles (Raises e) \<Rightarrow>
             (Settles (Returns
                \<lparr>is_valid = False,
                 errors = [''Failed to shutdown plugin '' @ pid @ '': '' @ e],
                 warnings = []\<rparr>), st)
         | Settles (Returns u) \<Rightarrow>
             (case map_of (priv_metadata st) pid of
                None \<Rightarrow>
                  (Settles (Returns
                     \<lparr>is_valid = False,
                      errors = [''Failed to shutdown plugin '' @ pid @ '': '' @ py_repr_str pid],
                      warnings = []\<rparr>), st)
              | Some metadata \<Rightarrow>
                  (let st1 = set_status st metadata REGISTERED;
                       st2 = (if pid \<in> set (priv_active_formats st1)
                              then st1\<lparr>priv_active_formats :=
                                         remove1 pid (priv_active_formats st1)\<rparr>
                              else st1)
                   in (Settles (Returns \<lparr>is_valid = True, errors = [], warnings = []\<rparr>),
                       st2)))))"

text \<open>
  What a caller holds after reading a container from the registry: \<open>Copy d\<close> is a fresh
  container object with the contents \<open>d\<close>, \<open>Internal\<close> is the registry's own container
  object. The three read accessors return \<open>self._x.copy()\<close>, a fresh container; the
  copy is shallow, so the returned metadata dict maps each id to the address of the very
  object the registry holds.
\<close>

datatype 'a handle = Copy 'a | Internal

definition plugins :: "registry_state \<Rightarrow> (string \<times> plugin) list handle" where
  "plugins st = Copy (priv_plugins st)"

definition metadata :: "registry_state \<Rightarrow> (string \<times> nat) list handle" where
  "metadata st = Copy (priv_metadata st)"

definition active_formats :: "registry_state \<Rightarrow> string list handle" where
  "active_formats st = Copy (priv_active_formats st)"

definition get_plugin :: "registry_state \<Rightarrow> string \<Rightarrow> plugin option" where
  "get_plugin st pid = map_of (priv_plugins st) pid"

definition get_plugin_metadata :: "registry_state \<Rightarrow> string \<Rightarrow> nat option" where
  "get_plugin_metadata st pid = map_of (priv_metadata st) pid"

text \<open>What the registry holds for a plugin id: the metadata object and its status.\<close>

definition metadata_of :: "registry_state \<Rightarrow> string \<Rightarrow> PluginMetadata option" where
  "metadata_of st pid = map_option (store st) (map_of (priv_metadata st) pid)"

definition status_of :: "registry_state \<Rightarrow> string \<Rightarrow> PluginStatus option" where
  "status_of st pid = map_option (\<lambda>m. tf_status (md_format m)) (metadata_of st pid)"

subsection \<open>Sequences of registry calls\<close>

text \<open>A caller's calls, in sequence, each with the outcomes of the plugin calls it makes.\<close>

datatype registry_op =
    Register plugin "plugin list \<Rightarrow> CompatibilityResult outcome" "ValidationResult outcome"
  | Initialize string "unit awaited"
  | Shutdown string "unit awaited"

fun step :: "registry_state \<Rightarrow> registry_op \<Rightarrow> registry_state" where
  "step st (Register p cc vd) = snd (register_plugin st p cc vd)"
| "step st (Initialize pid i) = snd (initialize_plugin st pid i)"
| "step st (Shutdown pid s) = snd (shutdown_plugin st pid s)"

definition run :: "registry_state \<Rightarrow> registry_op list \<Rightarrow> registry_state" where
  "run st ops = foldl step st ops"

text \<open>
  The shape of every registry state that the operations build from a new registry: the two
  dicts have the same keys in the same order, every plugin has a metadata object of its
  own at an allocated address, and the active formats are registered ids, each once.
\<close>

definition wf_registry :: "registry_state \<Rightarrow> bool" where
  "wf_registry st \<longleftrightarrow>
     map fst (priv_metadata st) = map fst (priv_plugins st) \<and>
     distinct (map fst (priv_plugins st)) \<and>
     distinct (map snd (priv_metadata st)) \<and>
     list_all (\<lambda>a. a < next_ref st) (map snd (priv_metadata st)) \<and>
     distinct (priv_active_formats st) \<and>
     list_all (\<lambda>pid. pid \<in> set (map fst (priv_plugins st))) (priv_active_formats st)"

text \<open>
  The calls to look at for a plugin's status: an initialize or a shutdown of that plugin
  whose plugin action succeeds, and an initialize of that plugin whose action is left by
  an exception that is not an \<open>Exception\<close>.
\<close>

fun initialize_succeeds_for :: "string \<Rightarrow> registry_op \<Rightarrow> bool" where
  "initialize_succeeds_for pid (Initialize q (Settles (Returns u))) = (q = pid)"
| "initialize_succeeds_for pid other = False"

fun shutdown_succeeds_for :: "string \<Rightarrow> registry_op \<Rightarrow> bool" where
  "shutdown_succeeds_for pid (Shutdown q (Settles (Returns u))) = (q = pid)"
| "shutdown_succeeds_for pid other = False"

fun initialize_escapes_for :: "string \<Rightarrow> registry_op \<Rightarrow> bool" where
  "initialize_escapes_for pid (Initialize q (Escapes e)) = (q = pid)"
| "initialize_escapes_for pid other = False"

subsection \<open>A caller mutating what the accessors returned\<close>

text \<open>
  The caller keeps the three values it read. It can then write to the containers it
  holds (\<open>d[k] = v\<close>, \<open>del d[k]\<close>, \<open>l.append(x)\<close>, \<open>l.remove(x)\<close>) and to a metadata object
  it reaches through the metadata dict it holds (\<open>d[k].format.status = s\<close> and any other
  field assignment, given as a function on the object). A write to a container lands in
  the registry only when the caller holds the registry's own container. Deleting or
  reading a missing key and removing a missing element raise in Python and change nothing.
\<close>

record caller =
  held_plugins :: "(string \<times> plugin) list handle"
  held_metadata :: "(string \<times> nat) list handle"
  held_active_formats :: "string list handle"

definition read_accessors :: "registry_state \<Rightarrow> caller" where
  "read_accessors st =
     \<lparr>held_plugins = plugins st, held_metadata = metadata st,
      held_active_formats = active_formats st\<rparr>"

datatype caller_mutation =
    PluginsSet string plugin
  | PluginsDel string
  | MetadataSet string nat
  | MetadataDel string
  | FormatsAppend string
  | FormatsRemove string
  | ObjectWrite string "PluginMetadata \<Rightarrow> PluginMetadata"

definition dict_del :: "'k \<Rightarrow> ('k \<times> 'v) list \<Rightarrow> ('k \<times> 'v) list" where
  "dict_del k d = filter (\<lambda>(k', v'). k' \<noteq> k) d"

fun mutate :: "caller \<times> registry_state \<Rightarrow> caller_mutation \<Rightarrow> caller \<times> registry_state" where
  "mutate (c, st) (PluginsSet k v) =
     (case held_plugins c of
        Copy d \<Rightarrow> (c\<lparr>held_plugins := Copy (dict_set k v d)\<rparr>, st)
      | Internal \<Rightarrow> (c, st\<lparr>priv_plugins := dict_set k v (priv_plugins st)\<rparr>))"
| "mutate (c, st) (PluginsDel k) =
     (case held_plugins c of
        Copy d \<Rightarrow> (c\<lparr>held_plugins := Copy (dict_del k d)\<rparr>, st)
      | Internal \<Rightarrow> (c, st\<lparr>priv_plugins := dict_del k (priv_plugins st)\<rparr>))"
| "mutate (c, st) (MetadataSet k a) =
     (case held_metadata c of
        Copy d \<Rightarrow> (c\<lparr>held_metadata := Copy (dict_set k a d)\<rparr>, st)
      | Internal \<Rightarrow> (c, st\<lparr>priv_metadata := dict_set k a (priv_metadata st)\<rparr>))"
| "mutate (c, st) (MetadataDel k) =
     (case held_metadata c of
        Copy d \<Rightarrow> (c\<lparr>held_metadata := Copy (dict_del k d)\<rparr>, st)
      | Internal \<Rightarrow> (c, st\<lparr>priv_metadata := dict_del k (priv_metadata st)\<rparr>))"
| "mutate (c, st) (FormatsAppend x) =
     (case held_active_formats c of
        Copy l \<Rightarrow> (c\<lparr>held_active_formats := Copy (l @ [x])\<rparr>, st)
      | Internal \<Rightarrow> (c, st\<lparr>priv_active_formats := priv_active_formats st @ [x]\<rparr>))"
| "mutate (c, st) (FormatsRemove x) =
     (case held_active_formats c of
        Copy l \<Rightarrow> (c\<lparr>held_active_formats := Copy (remove1 x l)\<rparr>, st)
      | Internal \<Rightarrow> (c, st\<lparr>priv_active_formats := remove1 x (priv_active_formats st)\<rparr>))"
| "mutate (c, st) (ObjectWrite k f) =
     (case map_of (case held_metadata c of Copy d \<Rightarrow> d | Internal \<Rightarrow> priv_metadata st) k of
        None \<Rightarrow> (c, st)
      | Some a \<Rightarrow> (c, st\<lparr>store := (store st)(a := f (store st a))\<rparr>))"

definition mutate_all ::
  "caller \<times> registry_state \<Rightarrow> caller_mutation list \<Rightarrow> caller \<times> registry_state" where
  "mutate_all cs ms = foldl mutate cs ms"

section \<open>Dependency management (core/plugins/config.py, core/plugins/dependencies.py)\<close>

text \<open>
  A \<open>datetime\<close> is a count of microseconds and a \<open>timedelta\<close> a difference of two;
  the default \<open>cache_ttl\<close> is one hour.
\<close>

record DependencyConfig =
  cache_ttl :: int
  max_depth :: int
  ignore_optional :: bool
  package_index :: string
  extra_indexes :: "string list option"
  lookup_timeout :: real

definition DependencyConfig_default :: DependencyConfig where
  "DependencyConfig_default =
     \<lparr>cache_ttl = 3600000000, max_depth = 5, ignore_optional = True,
      package_index = ''https://pypi.org/simple'', extra_indexes = None, lookup_timeout = 5\<rparr>"

text \<open>The values of an \<open>ErrorResponse\<close> context: a text, \<open>None\<close>, or a list of pairs.\<close>

datatype ctx_value = CStr string | CNone | CPairs "(string \<times> string) list"

record ErrorResponse =
  er_code :: string
  er_severity :: string
  er_component :: string
  er_message :: string
  er_context :: "(string \<times> ctx_value) list"
  er_resolution :: "string list"
  er_timestamp :: int

text \<open>
  A \<open>packaging.version.Version\<close>, by its canonical text; a specifier set, by the versions
  it contains.
\<close>

datatype Version = Version string

fun str_Version :: "Version \<Rightarrow> string" where
  "str_Version (Version s) = s"

type_synonym SpecifierSet = "Version \<Rightarrow> bool"

text \<open>
  What the module takes from outside the repository:
  \<^item> \<open>ext_Requirement s\<close> is the specifier set of \<open>packaging\<close>'s \<open>Requirement(s)\<close>, or the
    exception that parsing \<open>s\<close> raises;
  \<^item> \<open>ext_str e\<close> is \<open>str(e)\<close> of the pydantic model \<open>e\<close>;
  \<^item> \<open>ext_utcnow n\<close> is what the \<open>n\<close>-th reading of \<open>datetime.utcnow()\<close> returns (the
    operations thread the number of readings made so far);
  \<^item> \<open>ext_iter s\<close> is the order in which Python iterates over the set whose elements, in
    insertion order, are \<open>s\<close>.
\<close>

record extern =
  ext_Requirement :: "string \<Rightarrow> SpecifierSet outcome"
  ext_str :: "ErrorResponse \<Rightarrow> string"
  ext_utcnow :: "nat \<Rightarrow> int"
  ext_iter :: "(string \<times> string) list \<Rightarrow> (string \<times> string) list"

record DependencyManager =
  config :: DependencyConfig
  dependency_cache :: "(string \<times> (string \<times> Version) list) list"
  validation_cache :: "(string \<times> string) \<Rightarrow> (ValidationResult \<times> int) option"

definition DependencyManager_init :: "DependencyConfig option \<Rightarrow> DependencyManager" where
  "DependencyManager_init cfg =
     \<lparr>config = (case cfg of Some c \<Rightarrow> c | None \<Rightarrow> DependencyConfig_default),
      dependency_cache = [], validation_cache = (\<lambda>k. None)\<rparr>"

definition get_installed_version :: "string \<Rightarrow> Version option outcome" where
  "get_installed_version package_name = Returns (Some (Version ''0.0.0''))"

subsection \<open>The three errors of \<open>validate_dependencies\<close>\<close>

definition dep001 :: "string \<Rightarrow> string \<Rightarrow> DependencySpec \<Rightarrow> int \<Rightarrow> ErrorResponse" where
  "dep001 pid name spec ts =
     \<lparr>er_code = ''DEP001'', er_severity = ''ERROR'', er_component = pid,
      er_message = ''Required dependency '' @ name @ '' is not installed'',
      er_context = [(''operation'', CStr ''dependency_validation''),
                    (''dependency'', CStr name),
                    (''required_version'', CStr (spec_version spec)),
                    (''found_version'', CNone)],
      er_resolution = [''Install '' @ name @ '' version '' @ spec_version spec,
                       ''Check package repository accessibility''],
      er_timestamp = ts\<rparr>"

definition dep002 :: "string \<Rightarrow> string \<Rightarrow> DependencySpec \<Rightarrow> Version \<Rightarrow> int \<Rightarrow> ErrorResponse" where
  "dep002 pid name spec installed_version ts =
     \<lparr>er_code = ''DEP002'', er_severity = ''ERROR'', er_component = pid,
      er_message = ''Incompatible version for '' @ name,
      er_context = [(''operation'', CStr ''dependency_validation''),
                    (''dependency'', CStr name),
                    (''required_version'', CStr (spec_version spec)),
                    (''found_version'', CStr (str_Version installed_version))],
      er_resolution = [''Upgrade '' @ name @ '' to version '' @ spec_version spec,
                       ''Or downgrade plugin to version compatible with '' @ name @ '' '' @
                       str_Version installed_version],
      er_timestamp = ts\<rparr>"

definition dep003 :: "string \<Rightarrow> string \<Rightarrow> string \<Rightarrow> int \<Rightarrow> ErrorResponse" where
  "dep003 pid name e ts =
     \<lparr>er_code = ''DEP003'', er_severity = ''ERROR'', er_component = pid,
      er_message = ''Error validating dependency '' @ name,
      er_context = [(''operation'', CStr ''dependency_validation''),
                    (''dependency'', CStr name),
                    (''error'', CStr e)],
      er_resolution = [''Check package name and version format'',
                       ''Verify package manager is functioning''],
      er_timestamp = ts\<rparr>"

text \<open>The two warnings of \<open>validate_dependencies\<close>.\<close>

definition not_installed_warning :: "string \<Rightarrow> string" where
  "not_installed_warning name = ''Optional dependency '' @ name @ '' is not installed''"

definition mismatch_warning :: "string \<Rightarrow> Version \<Rightarrow> DependencySpec \<Rightarrow> string" where
  "mismatch_warning name installed_version spec =
     ''Optional dependency '' @ name @ '' version '' @ str_Version installed_version @
     '' does not match requirement '' @ spec_version spec"

subsection \<open>\<open>validate_dependencies\<close>\<close>

text \<open>
  The locals of the loop over the declared dependencies: the list \<open>errors\<close>, the list
  \<open>warnings\<close>, the number of clock readings made so far, and the package names passed to
  \<open>_get_installed_version\<close> so far. Building an \<open>ErrorResponse\<close> reads the clock once (its
  \<open>timestamp\<close> default).
\<close>

record check_state =
  cs_errors :: "ErrorResponse list"
  cs_warnings :: "string list"
  cs_clock :: nat
  cs_lookups :: "string list"

definition add_error :: "extern \<Rightarrow> (int \<Rightarrow> ErrorResponse) \<Rightarrow> check_state \<Rightarrow> check_state" where
  "add_error ext mk s =
     s\<lparr>cs_errors := cs_errors s @ [mk (ext_utcnow ext (cs_clock s))],
       cs_clock := Suc (cs_clock s)\<rparr>"

definition add_warning :: "string \<Rightarrow> check_state \<Rightarrow> check_state" where
  "add_warning w s = s\<lparr>cs_warnings := cs_warnings s @ [w]\<rparr>"

text \<open>One turn of the loop, for the dict item \<open>(dep_name, dep_spec)\<close>.\<close>

definition check_dependency ::
  "extern \<Rightarrow> string \<Rightarrow> string \<times> DependencySpec \<Rightarrow> check_state \<Rightarrow> check_state" where
  "check_dependency ext pid item s =
     (let dep_name = fst item; dep_spec = snd item in
      if spec_scope dep_spec = TEST then s
      else
        (let s1 = s\<lparr>cs_lookups := cs_lookups s @ [dep_name]\<rparr> in
         case get_installed_version dep_name of
           Raises e \<Rightarrow> add_error ext (dep003 pid dep_name e) s1
         | Returns None \<Rightarrow>
             if spec_type dep_spec = REQUIRED
             then add_error ext (dep001 pid dep_name dep_spec) s1
             else add_warning (not_installed_warning dep_name) s1
         | Returns (Some installed_version) \<Rightarrow>
             (case ext_Requirement ext (dep_name @ spec_version dep_spec) of
                Raises e \<Rightarrow> add_error ext (dep003 pid dep_name e) s1
              | Returns specifier \<Rightarrow>
                  if \<not> specifier installed_version then
                    if spec_type dep_spec = REQUIRED
                    then add_error ext (dep002 pid dep_name dep_spec installed_version) s1
                    else add_warning (mismatch_warning dep_name installed_version dep_spec) s1
                  else s1)))"

definition check_dependencies ::
  "extern \<Rightarrow> string \<Rightarrow> (string \<times> DependencySpec) list \<Rightarrow> check_state \<Rightarrow> check_state" where
  "check_dependencies ext pid deps s = foldl (\<lambda>s item. check_dependency ext pid item s) s deps"

text \<open>
  What one call of \<open>validate_dependencies\<close> does: the result it returns, the manager and
  the clock afterwards, and, for the claims that speak of what a call emits and looks up,
  the locals \<open>errors\<close> and \<open>warnings\<close> it built and the package names it passed to
  \<open>_get_installed_version\<close> (all empty when the result is served from the cache).
\<close>

record validation_run =
  vr_result :: ValidationResult
  vr_manager :: DependencyManager
  vr_clock :: nat
  vr_errors :: "ErrorResponse list"
  vr_warnings :: "string list"
  vr_lookups :: "string list"

text \<open>The path after the cache check: the loop, the result, the cache write.\<close>

definition compute_validation ::
  "extern \<Rightarrow> DependencyManager \<Rightarrow> nat \<Rightarrow> PluginMetadata \<Rightarrow> validation_run" where
  "compute_validation ext self clk plugin_metadata =
     (let cache_key = (md_id plugin_metadata, md_version plugin_metadata);
          s = check_dependencies ext (md_id plugin_metadata) (md_dependencies plugin_metadata)
                \<lparr>cs_errors = [], cs_warnings = [], cs_clock = clk, cs_lookups = []\<rparr>;
          result = \<lparr>is_valid = (length (cs_errors s) = 0),
                    errors = map (ext_str ext) (cs_errors s),
                    warnings = cs_warnings s\<rparr>
      in \<lparr>vr_result = result,
          vr_manager = self\<lparr>validation_cache :=
                              (validation_cache self)
                                (cache_key := Some (result, ext_utcnow ext (cs_clock s)))\<rparr>,
          vr_clock = Suc (cs_clock s),
          vr_errors = cs_errors s,
          vr_warnings = cs_warnings s,
          vr_lookups = cs_lookups s\<rparr>)"

definition validate_dependencies ::
  "extern \<Rightarrow> DependencyManager \<Rightarrow> nat \<Rightarrow> PluginMetadata \<Rightarrow> validation_run" where
  "validate_dependencies ext self clk plugin_metadata =
     (let cache_key = (md_id plugin_metadata, md_version plugin_metadata) in
      case validation_cache self cache_key of
        Some (result, timestamp) \<Rightarrow>
          if ext_utcnow ext clk - timestamp < cache_ttl (config self)
          then \<lparr>vr_result = result, vr_manager = self, vr_clock = Suc clk,
                vr_errors = [], vr_warnings = [], vr_lookups = []\<rparr>
          else compute_validation ext self (Suc clk) plugin_metadata
      | None \<Rightarrow> compute_validation ext self clk plugin_metadata)"

text \<open>
  The cache check at the head of \<open>validate_dependencies\<close>: an entry for the key exists and
  is younger than the configured time to live.
\<close>

definition served_from_cache ::
  "extern \<Rightarrow> DependencyManager \<Rightarrow> nat \<Rightarrow> PluginMetadata \<Rightarrow> bool" where
  "served_from_cache ext self clk plugin_metadata =
     (case validation_cache self (md_id plugin_metadata, md_version plugin_metadata) of
        Some (result, timestamp) \<Rightarrow> ext_utcnow ext clk - timestamp < cache_ttl (config self)
      | None \<Rightarrow> False)"

subsection \<open>What a validation reports, dependency by dependency\<close>



text \<open>Errors in order, each with the next clock reading as its timestamp, from reading \<open>c\<close> on.\<close>

fun stamp :: "extern \<Rightarrow> nat \<Rightarrow> (int \<Rightarrow> ErrorResponse) list \<Rightarrow> ErrorResponse list" where
  "stamp ext c [] = []"
| "stamp ext c (mk # mks) = mk (ext_utcnow ext c) # stamp ext (Suc c) mks"

subsection \<open>\<open>resolve_dependencies\<close>\<close>

text \<open>A Python set of pairs: its elements, without repetition, in insertion order.\<close>

definition set_add :: "'a \<Rightarrow> 'a list \<Rightarrow> 'a list" where
  "set_add x s = (if x \<in> set s then s else s @ [x])"

definition add_requirement ::
  "string \<Rightarrow> string \<times> string \<Rightarrow> (string \<times> (string \<times> string) list) list \<Rightarrow>
   (string \<times> (string \<times> string) list) list" where
  "add_requirement dep_name req dependencies =
     (let d = (if dep_name \<notin> fst ` set dependencies then dict_set dep_name [] dependencies
               else dependencies)
      in case map_of d dep_name of
           Some s \<Rightarrow> dict_set dep_name (set_add req s) d
         | None \<Rightarrow> d)"

definition build_graph ::
  "PluginMetadata list \<Rightarrow> (string \<times> (string \<times> string) list) list" where
  "build_graph plugin_list =
     foldl (\<lambda>dependencies p.
              foldl (\<lambda>dependencies item.
                       add_requirement (fst item) (md_id p, spec_version (snd item)) dependencies)
                    dependencies (md_dependencies p))
           [] plugin_list"

text \<open>
  \<open>_merge_version_requirements\<close>: the version text of the first element that iterating
  over the set gives, \<open>None\<close> for the empty set (\<open>next\<close> on an exhausted iterator raises
  \<open>StopIteration\<close>).
\<close>

definition merge_version_requirements ::
  "extern \<Rightarrow> (string \<times> string) list \<Rightarrow> string option outcome" where
  "merge_version_requirements ext requirements =
     (if requirements \<noteq> [] then
        (case ext_iter ext requirements of
           first # rest \<Rightarrow> Returns (Some (snd first))
         | [] \<Rightarrow> Raises ''StopIteration'')
      else Returns None)"

text \<open>Python's truth value of an \<open>Optional[str]\<close>: \<open>None\<close> and the empty text are false.\<close>

fun truthy :: "string option \<Rightarrow> bool" where
  "truthy None = False"
| "truthy (Some s) = (s \<noteq> [])"

definition dep004 ::
  "extern \<Rightarrow> string \<Rightarrow> (string \<times> string) list \<Rightarrow> int \<Rightarrow> ErrorResponse" where
  "dep004 ext dep_name requirements ts =
     (let plugins_str =
            py_join '', '' (map (\<lambda>(pid, ver). pid @ '' ('' @ ver @ '')'')
                               (ext_iter ext requirements))
      in \<lparr>er_code = ''DEP004'', er_severity = ''ERROR'', er_component = ''dependency_resolver'',
          er_message = ''Incompatible version requirements for '' @ dep_name,
          er_context = [(''operation'', CStr ''dependency_resolution''),
                        (''dependency'', CStr dep_name),
                        (''requirements'', CPairs (ext_iter ext requirements))],
          er_resolution = [''Resolve version conflict for '' @ dep_name @
                           '' between plugins: '' @ plugins_str,
                           ''Consider updating plugins to use compatible versions''],
          er_timestamp = ts\<rparr>)"

definition dep005 :: "string \<Rightarrow> string \<Rightarrow> int \<Rightarrow> ErrorResponse" where
  "dep005 dep_name e ts =
     \<lparr>er_code = ''DEP005'', er_severity = ''ERROR'', er_component = ''dependency_resolver'',
      er_message = ''Error resolving versions for '' @ dep_name,
      er_context = [(''operation'', CStr ''dependency_resolution''),
                    (''dependency'', CStr dep_name),
                    (''error'', CStr e)],
      er_resolution = [''Check version requirement format'',
                       ''Verify all version specifications are valid''],
      er_timestamp = ts\<rparr>"

text \<open>One turn of the conflict loop, on the errors built so far and the clock.\<close>

definition check_conflict ::
  "extern \<Rightarrow> string \<times> (string \<times> string) list \<Rightarrow> ErrorResponse list \<times> nat \<Rightarrow>
   ErrorResponse list \<times> nat" where
  "check_conflict ext item acc =
     (let dep_name = fst item; requirements = snd item;
          errs = fst acc; clk = snd acc in
      if length requirements > 1 then
        (case merge_version_requirements ext requirements of
           Returns merged_requirement \<Rightarrow>
             if \<not> truthy merged_requirement
             then (errs @ [dep004 ext dep_name requirements (ext_utcnow ext clk)], Suc clk)
             else acc
         | Raises e \<Rightarrow> (errs @ [dep005 dep_name e (ext_utcnow ext clk)], Suc clk))
      else acc)"

text \<open>
  \<open>resolve_dependencies\<close> returns the result, with the local \<open>errors\<close> it built and the
  clock afterwards.
\<close>

definition resolve_dependencies ::
  "extern \<Rightarrow> nat \<Rightarrow> PluginMetadata list \<Rightarrow> ValidationResult \<times> ErrorResponse list \<times> nat" where
  "resolve_dependencies ext clk plugin_list =
     (let dependencies = build_graph plugin_list;
          acc = foldl (\<lambda>acc item. check_conflict ext item acc) ([], clk) dependencies
      in (\<lparr>is_valid = (length (fst acc) = 0),
           errors = map (ext_str ext) (fst acc),
           warnings = []\<rparr>, fst acc, snd acc))"

section \<open>Sample inputs\<close>

text \<open>Concrete plugins and registry states on which the theorems below are instantiated.\<close>

definition blank_metadata :: PluginMetadata where
  "blank_metadata =
     \<lparr>md_id = [], md_name = [], md_version = [],
      md_format = \<lparr>tf_name = [], tf_version = [], tf_dependencies = [], tf_enabled = True,
                   tf_status = REGISTERED\<rparr>,
      md_interfaces = [], md_dependencies = []\<rparr>"

definition delta_plugin :: plugin where
  "delta_plugin =
     \<lparr>plugin_id = ''delta'', plugin_name = ''Delta Lake'', plugin_version = ''1.0.0'',
      plugin_truthy = True,
      plugin_mro =
        [\<lparr>cls_name = ''DeltaPlugin'', cls_is_object = False, cls_has_abstractmethods = True\<rparr>,
         \<lparr>cls_name = ''BaseTableFormatPlugin'', cls_is_object = False,
          cls_has_abstractmethods = True\<rparr>,
         \<lparr>cls_name = ''ITableFormatPlugin'', cls_is_object = False,
          cls_has_abstractmethods = True\<rparr>,
         \<lparr>cls_name = ''ABC'', cls_is_object = False, cls_has_abstractmethods = True\<rparr>,
         \<lparr>cls_name = ''object'', cls_is_object = True, cls_has_abstractmethods = False\<rparr>]\<rparr>"

definition compatible :: "plugin list \<Rightarrow> CompatibilityResult outcome" where
  "compatible others = Returns \<lparr>is_compatible = True, conflicts = []\<rparr>"

definition deps_ok :: "ValidationResult outcome" where
  "deps_ok = Returns \<lparr>is_valid = True, errors = [], warnings = []\<rparr>"

definition delta_registered :: registry_state where
  "delta_registered =
     snd (register_plugin (new_registry (\<lambda>a. blank_metadata)) delta_plugin compatible deps_ok)"


definition delta_failed :: registry_state where
  "delta_failed =
     snd (initialize_plugin delta_registered ''delta'' (Settles (Raises ''boom'')))"

text \<open>A plugin whose class defines \<open>__len__\<close> to return 0, registered in a new registry.\<close>

definition quiet_plugin :: plugin where
  "quiet_plugin = delta_plugin\<lparr>plugin_id := ''quiet'', plugin_truthy := False\<rparr>"

definition quiet_registered :: registry_state where
  "quiet_registered =
     snd (register_plugin (new_registry (\<lambda>a. blank_metadata)) quiet_plugin compatible deps_ok)"

definition mark_active :: "PluginMetadata \<Rightarrow> PluginMetadata" where
  "mark_active m = m\<lparr>md_format := (md_format m)\<lparr>tf_status := ACTIVE\<rparr>\<rparr>"


text \<open>
  A stand-in for \<open>packaging\<close> on the requirement texts of the samples, a rendering of an
  error by its code and message, a clock that advances one second per reading, and sets
  that iterate in insertion order.
\<close>

definition sample_Requirement :: "string \<Rightarrow> SpecifierSet outcome" where
  "sample_Requirement s =
     (if s = ''numpy>=1.20.0'' then Returns (\<lambda>v. v \<in> set [Version ''1.20.0'', Version ''1.21.0''])
      else if s = ''numpy<1.20.0'' then Returns (\<lambda>v. v \<in> set [Version ''0.0.0'', Version ''1.19.5''])
      else Raises (''Invalid requirement: '' @ s))"

definition sample_ext :: extern where
  "sample_ext =
     \<lparr>ext_Requirement = sample_Requirement,
      ext_str = (\<lambda>e. er_code e @ '': '' @ er_message e),
      ext_utcnow = (\<lambda>n. int n * 1000000),
      ext_iter = (\<lambda>s. s)\<rparr>"

definition numpy_spec :: DependencySpec where
  "numpy_spec =
     \<lparr>spec_name = ''numpy'', spec_version = ''>=1.20.0'', spec_type = REQUIRED,
      spec_scope = RUNTIME\<rparr>"

definition pytest_spec :: DependencySpec where
  "pytest_spec =
     \<lparr>spec_name = ''pytest'', spec_version = ''>=6.0.0'', spec_type = REQUIRED,
      spec_scope = TEST\<rparr>"

definition sample_format :: TableFormat where
  "sample_format =
     \<lparr>tf_name = ''Test Format'', tf_version = ''1.0.0'', tf_dependencies = [],
      tf_enabled = True, tf_status = REGISTERED\<rparr>"

definition sample_plugin_metadata :: PluginMetadata where
  "sample_plugin_metadata =
     \<lparr>md_id = ''test-plugin'', md_name = ''Test Plugin'', md_version = ''1.0.0'',
      md_format = sample_format, md_interfaces = [],
      md_dependencies = [(''numpy'', numpy_spec), (''pytest'', pytest_spec)]\<rparr>"

text \<open>The same plugin before its dependencies are filled in.\<close>

definition bare_plugin_metadata :: PluginMetadata where
  "bare_plugin_metadata = sample_plugin_metadata\<lparr>md_dependencies := []\<rparr>"

definition plugin1_metadata :: PluginMetadata where
  "plugin1_metadata =
     \<lparr>md_id = ''plugin1'', md_name = ''Plugin 1'', md_version = ''1.0.0'',
      md_format = sample_format, md_interfaces = [],
      md_dependencies = [(''numpy'', numpy_spec)]\<rparr>"

definition plugin2_metadata :: PluginMetadata where
  "plugin2_metadata =
     \<lparr>md_id = ''plugin2'', md_name = ''Plugin 2'', md_version = ''1.0.0'',
      md_format = sample_format, md_interfaces = [],
      md_dependencies = [(''numpy'', numpy_spec\<lparr>spec_version := ''<1.20.0''\<rparr>)]\<rparr>"




text \<open>
  A validation of the sample metadata by a manager that validated, one clock reading
  earlier, the same plugin before its dependencies were filled in.
\<close>

definition stale_run :: validation_run where
  "stale_run =
     (let first = validate_dependencies sample_ext (DependencyManager_init None) 0
                    bare_plugin_metadata
      in validate_dependencies sample_ext (vr_manager first) (vr_clock first)
           sample_plugin_metadata)"

section \<open>Well-formed registry states\<close>

lemma dict_set_fresh: "k \<notin> fst ` set d \<Longrightarrow> dict_set k v d = d @ [(k, v)]"
  by (simp add: dict_set_def)

lemma register_plugin_cases:
  "snd (register_plugin st p cc vd) = st \<or>
   (plugin_id p \<notin> fst ` set (priv_plugins st) \<and>
    snd (register_plugin st p cc vd) =
      st\<lparr>store := (store st)(next_ref st :=
              \<lparr>md_id = plugin_id p, md_name = plugin_name p, md_version = plugin_version p,
               md_format = \<lparr>tf_name = plugin_name p, tf_version = plugin_version p,
                            tf_dependencies = [], tf_enabled = True, tf_status = REGISTERED\<rparr>,
               md_interfaces = get_implemented_interfaces p, md_dependencies = []\<rparr>),
         next_ref := Suc (next_ref st),
         priv_plugins := priv_plugins st @ [(plugin_id p, p)],
         priv_metadata := dict_set (plugin_id p) (next_ref st) (priv_metadata st)\<rparr>)"
  by (auto simp: register_plugin_def dict_set_fresh Let_def split: outcome.splits)

lemma wf_keys: "wf_registry st \<Longrightarrow> fst ` set (priv_metadata st) = fst ` set (priv_plugins st)"
  unfolding wf_registry_def by (metis list.set_map)

lemma wf_register: "wf_registry st \<Longrightarrow> wf_registry (snd (register_plugin st p cc vd))"
proof -
  assume wf: "wf_registry st"
  from register_plugin_cases [of st p cc vd] show ?thesis
  proof
    assume "snd (register_plugin st p cc vd) = st" with wf show ?thesis by simp
  next
    assume a: "plugin_id p \<notin> fst ` set (priv_plugins st) \<and> snd (register_plugin st p cc vd) =
      st\<lparr>store := (store st)(next_ref st :=
              \<lparr>md_id = plugin_id p, md_name = plugin_name p, md_version = plugin_version p,
               md_format = \<lparr>tf_name = plugin_name p, tf_version = plugin_version p,
                            tf_dependencies = [], tf_enabled = True, tf_status = REGISTERED\<rparr>,
               md_interfaces = get_implemented_interfaces p, md_dependencies = []\<rparr>),
         next_ref := Suc (next_ref st),
         priv_plugins := priv_plugins st @ [(plugin_id p, p)],
         priv_metadata := dict_set (plugin_id p) (next_ref st) (priv_metadata st)\<rparr>"
    then have fresh: "plugin_id p \<notin> fst ` set (priv_metadata st)" using wf_keys [OF wf] by simp
    have lt: "\<forall>a \<in> set (map snd (priv_metadata st)). a < next_ref st"
      using wf by (simp add: wf_registry_def list_all_iff)
    then have nf: "next_ref st \<notin> snd ` set (priv_metadata st)" by auto
    show ?thesis using a wf fresh nf lt
      by (auto simp: wf_registry_def dict_set_fresh list_all_iff less_Suc_eq)
  qed
qed

lemma set_status_fields [simp]:
  "priv_plugins (set_status st a s) = priv_plugins st"
  "priv_metadata (set_status st a s) = priv_metadata st"
  "priv_active_formats (set_status st a s) = priv_active_formats st"
  "next_ref (set_status st a s) = next_ref st"
  by (simp_all add: set_status_def)

lemma wf_set_status [simp]: "wf_registry (set_status st a s) = wf_registry st"
  by (simp add: wf_registry_def)

lemma not_plugin_iff: "not_plugin x \<longleftrightarrow> (\<forall>p. x = Some p \<longrightarrow> \<not> plugin_truthy p)"
  by (cases x) simp_all

lemma initialize_not_plugin:
  assumes "not_plugin (map_of (priv_plugins st) pid)"
  shows "initialize_plugin st pid i =
           (Settles (Returns \<lparr>is_valid = False, errors = [''Plugin '' @ pid @ '' not found''],
                              warnings = []\<rparr>), st)"
  using assms by (simp add: initialize_plugin_def)

lemma shutdown_not_plugin:
  assumes "not_plugin (map_of (priv_plugins st) pid)"
  shows "shutdown_plugin st pid i =
           (Settles (Returns \<lparr>is_valid = False, errors = [''Plugin '' @ pid @ '' not found''],
                              warnings = []\<rparr>), st)"
  using assms by (simp add: shutdown_plugin_def)

lemma initialize_success_state:
  assumes "map_of (priv_plugins st) pid = Some p" "plugin_truthy p"
    "map_of (priv_metadata st) pid = Some a"
  shows "initialize_plugin st pid (Settles (Returns u)) =
           (Settles (Returns \<lparr>is_valid = True, errors = [], warnings = []\<rparr>),
            (set_status (set_status st a INITIALIZING) a ACTIVE)
              \<lparr>priv_active_formats :=
                 (if pid \<in> set (priv_active_formats st) then priv_active_formats st
                  else priv_active_formats st @ [pid])\<rparr>)"
  using assms by (simp add: initialize_plugin_def Let_def)

lemma initialize_failure_state:
  assumes "map_of (priv_plugins st) pid = Some p" "plugin_truthy p"
    "map_of (priv_metadata st) pid = Some a"
  shows "initialize_plugin st pid (Settles (Raises e)) =
           (Settles (Returns \<lparr>is_valid = False,
                              errors = [''Failed to initialize plugin '' @ pid @ '': '' @ e],
                              warnings = []\<rparr>),
            set_status (set_status st a INITIALIZING) a ERROR)"
  using assms by (simp add: initialize_plugin_def)

lemma initialize_escape_state:
  assumes "map_of (priv_plugins st) pid = Some p" "plugin_truthy p"
    "map_of (priv_metadata st) pid = Some a"
  shows "initialize_plugin st pid (Escapes e) = (Escapes e, set_status st a INITIALIZING)"
  using assms by (simp add: initialize_plugin_def)

lemma shutdown_success_state:
  assumes "map_of (priv_plugins st) pid = Some p" "plugin_truthy p"
    "map_of (priv_metadata st) pid = Some a"
  shows "shutdown_plugin st pid (Settles (Returns u)) =
           (Settles (Returns \<lparr>is_valid = True, errors = [], warnings = []\<rparr>),
            (set_status st a REGISTERED)
              \<lparr>priv_active_formats := remove1 pid (priv_active_formats st)\<rparr>)"
  using assms by (simp add: shutdown_plugin_def Let_def remove1_idem)

lemma shutdown_failure_state:
  assumes "map_of (priv_plugins st) pid = Some p" "plugin_truthy p"
  shows "shutdown_plugin st pid (Settles (Raises e)) =
           (Settles (Returns \<lparr>is_valid = False,
                              errors = [''Failed to shutdown plugin '' @ pid @ '': '' @ e],
                              warnings = []\<rparr>), st)"
    and "shutdown_plugin st pid (Escapes e) = (Escapes e, st)"
  using assms by (simp_all add: shutdown_plugin_def)

text \<open>The states an initialize or a shutdown call can end in.\<close>

lemma initialize_plugin_cases:
  "snd (initialize_plugin st pid i) = st \<or>
   (\<exists>p a. map_of (priv_plugins st) pid = Some p \<and> plugin_truthy p \<and>
          map_of (priv_metadata st) pid = Some a \<and>
          (snd (initialize_plugin st pid i) = set_status st a INITIALIZING \<or>
           snd (initialize_plugin st pid i) = set_status (set_status st a INITIALIZING) a ERROR \<or>
           snd (initialize_plugin st pid i) =
             (set_status (set_status st a INITIALIZING) a ACTIVE)
               \<lparr>priv_active_formats :=
                  (if pid \<in> set (priv_active_formats st) then priv_active_formats st
                   else priv_active_formats st @ [pid])\<rparr>))"
proof (cases "not_plugin (map_of (priv_plugins st) pid)")
  case True
  then show ?thesis by (simp add: initialize_not_plugin)
next
  case False
  then obtain p where p: "map_of (priv_plugins st) pid = Some p" "plugin_truthy p"
    by (auto simp: not_plugin_iff)
  show ?thesis
  proof (cases "map_of (priv_metadata st) pid")
    case None
    then show ?thesis using p by (simp add: initialize_plugin_def)
  next
    case (Some a)
    show ?thesis
    proof (cases i)
      case (Settles r)
      then show ?thesis using p Some
        by (cases r) (simp_all add: initialize_success_state initialize_failure_state)
    next
      case (Escapes e)
      then show ?thesis using p Some by (simp add: initialize_escape_state)
    qed
  qed
qed

lemma shutdown_plugin_cases:
  "snd (shutdown_plugin st pid i) = st \<or>
   (\<exists>p a. map_of (priv_plugins st) pid = Some p \<and> plugin_truthy p \<and>
          map_of (priv_metadata st) pid = Some a \<and>
          snd (shutdown_plugin st pid i) =
            (set_status st a REGISTERED)
              \<lparr>priv_active_formats := remove1 pid (priv_active_formats st)\<rparr>)"
proof (cases "not_plugin (map_of (priv_plugins st) pid)")
  case True
  then show ?thesis by (simp add: shutdown_not_plugin)
next
  case False
  then obtain p where p: "map_of (priv_plugins st) pid = Some p" "plugin_truthy p"
    by (auto simp: not_plugin_iff)
  show ?thesis
  proof (cases i)
    case (Settles r)
    show ?thesis
    proof (cases r)
      case (Returns u)
      show ?thesis
      proof (cases "map_of (priv_metadata st) pid")
        case None
        then show ?thesis using p Settles Returns by (simp add: shutdown_plugin_def)
      next
        case (Some a)
        then show ?thesis using p Settles Returns by (simp add: shutdown_success_state)
      qed
    next
      case (Raises e)
      then show ?thesis using p Settles by (simp add: shutdown_failure_state)
    qed
  next
    case (Escapes e)
    then show ?thesis using p by (simp add: shutdown_failure_state)
  qed
qed

lemma wf_active_update:
  assumes "wf_registry st" "distinct l" "set l \<subseteq> fst ` set (priv_plugins st)"
  shows "wf_registry (st\<lparr>priv_active_formats := l\<rparr>)"
  using assms by (auto simp: wf_registry_def list_all_iff)

lemma wf_initialize: "wf_registry st \<Longrightarrow> wf_registry (snd (initialize_plugin st pid i))"
proof -
  assume wf: "wf_registry st"
  have act: "distinct (priv_active_formats st)"
    "set (priv_active_formats st) \<subseteq> fst ` set (priv_plugins st)"
    using wf by (auto simp: wf_registry_def list_all_iff)
  from initialize_plugin_cases [of st pid i] show ?thesis
  proof (elim disjE exE conjE)
    fix p a
    assume p: "map_of (priv_plugins st) pid = Some p"
      and s: "snd (initialize_plugin st pid i) =
             (set_status (set_status st a INITIALIZING) a ACTIVE)
               \<lparr>priv_active_formats :=
                  (if pid \<in> set (priv_active_formats st) then priv_active_formats st
                   else priv_active_formats st @ [pid])\<rparr>"
    from p have "pid \<in> fst ` set (priv_plugins st)"
      by (auto dest!: map_of_SomeD intro: rev_image_eqI)
    then show ?thesis unfolding s using wf act by (intro wf_active_update) auto
  qed (simp_all add: wf)
qed

lemma wf_shutdown: "wf_registry st \<Longrightarrow> wf_registry (snd (shutdown_plugin st pid i))"
proof -
  assume wf: "wf_registry st"
  have act: "distinct (priv_active_formats st)"
    "set (priv_active_formats st) \<subseteq> fst ` set (priv_plugins st)"
    using wf by (auto simp: wf_registry_def list_all_iff)
  from shutdown_plugin_cases [of st pid i] show ?thesis
  proof (elim disjE exE conjE)
    fix p a
    assume s: "snd (shutdown_plugin st pid i) =
            (set_status st a REGISTERED)
              \<lparr>priv_active_formats := remove1 pid (priv_active_formats st)\<rparr>"
    show ?thesis unfolding s using wf act
      by (intro wf_active_update) (auto dest: notin_set_remove1)
  qed (simp_all add: wf)
qed

lemma wf_step: "wf_registry st \<Longrightarrow> wf_registry (step st op)"
  by (cases op) (simp_all add: wf_register wf_initialize wf_shutdown)

lemma wf_run: "wf_registry st \<Longrightarrow> wf_registry (run st ops)"
  unfolding run_def by (induction ops arbitrary: st) (simp_all add: wf_step)

lemma wf_new: "wf_registry (new_registry h)"
  by (simp add: wf_registry_def new_registry_def)

text \<open>Every state that a sequence of calls builds from a new registry is well formed.\<close>

lemma wf_reachable: "wf_registry (run (new_registry h) ops)"
  by (rule wf_run) (rule wf_new)

section \<open>Metadata objects and their status\<close>

lemma map_of_None_iff: "map_of d k = None \<longleftrightarrow> k \<notin> fst ` set d"
  by (simp add: map_of_eq_None_iff)

lemma registered_has_metadata:
  assumes "wf_registry st" "map_of (priv_plugins st) pid = Some p"
  shows "\<exists>a. map_of (priv_metadata st) pid = Some a"
proof -
  from assms(2) have "pid \<in> fst ` set (priv_plugins st)"
    by (metis map_of_None_iff option.distinct(1))
  then have "pid \<in> fst ` set (priv_metadata st)" using wf_keys [OF assms(1)] by simp
  then show ?thesis by (metis map_of_None_iff not_Some_eq)
qed

lemma metadata_has_plugin:
  assumes "wf_registry st" "map_of (priv_metadata st) pid = Some a"
  shows "\<exists>p. map_of (priv_plugins st) pid = Some p"
proof -
  from assms(2) have "pid \<in> fst ` set (priv_metadata st)"
    by (metis map_of_None_iff option.distinct(1))
  then have "pid \<in> fst ` set (priv_plugins st)" using wf_keys [OF assms(1)] by simp
  then show ?thesis by (metis map_of_None_iff not_Some_eq)
qed

lemma address_owner:
  assumes "distinct (map snd d)" "map_of d k = Some a" "map_of d k' = Some a"
  shows "k = k'"
proof -
  have "(k, a) \<in> set d" "(k', a) \<in> set d" using assms(2,3) by (auto dest: map_of_SomeD)
  moreover have "inj_on snd (set d)" using assms(1) by (simp add: distinct_map)
  ultimately have "(k, a) = (k', a)" by (intro inj_onD [of snd "set d"]) simp_all
  then show ?thesis by simp
qed

lemma status_of_set_status:
  "status_of (set_status st a s) pid =
     (case map_of (priv_metadata st) pid of
        None \<Rightarrow> None
      | Some b \<Rightarrow> if b = a then Some s else Some (tf_status (md_format (store st b))))"
  by (simp add: status_of_def metadata_of_def set_status_def split: option.splits)

lemma status_of_alt:
  "status_of st pid =
     (case map_of (priv_metadata st) pid of
        None \<Rightarrow> None | Some b \<Rightarrow> Some (tf_status (md_format (store st b))))"
  by (simp add: status_of_def metadata_of_def split: option.splits)

lemma status_of_active_update [simp]:
  "status_of (st\<lparr>priv_active_formats := l\<rparr>) pid = status_of st pid"
  by (simp add: status_of_def metadata_of_def)

lemma store_set_status_other [simp]: "a \<noteq> b \<Longrightarrow> store (set_status st b s) a = store st a"
  by (simp add: set_status_def)

text \<open>A status write to the object of another plugin leaves the status of this one.\<close>

lemma status_of_set_status_other:
  assumes "distinct (map snd (priv_metadata st))" "map_of (priv_metadata st) q = Some b"
    "q \<noteq> pid"
  shows "status_of (set_status st b s) pid = status_of st pid"
proof (cases "map_of (priv_metadata st) pid")
  case None
  then show ?thesis by (simp add: status_of_set_status status_of_alt)
next
  case (Some a)
  have "a \<noteq> b" using address_owner [OF assms(1,2)] Some assms(3) by auto
  then show ?thesis using Some by (simp add: status_of_set_status status_of_alt)
qed

text \<open>The active formats grow only by an initialize whose action succeeds.\<close>

lemma initialize_active_formats:
  "priv_active_formats (snd (initialize_plugin st pid i)) = priv_active_formats st \<or>
   ((\<exists>u. i = Settles (Returns u)) \<and>
    priv_active_formats (snd (initialize_plugin st pid i)) = priv_active_formats st @ [pid])"
  by (auto simp: initialize_plugin_def Let_def
      split: option.splits outcome.splits awaited.splits)

lemma shutdown_active_formats:
  "set (priv_active_formats (snd (shutdown_plugin st pid i))) \<subseteq> set (priv_active_formats st)"
  using shutdown_plugin_cases [of st pid i] set_remove1_subset [of pid "priv_active_formats st"]
  by auto

lemma active_formats_step:
  assumes "pid \<notin> set (priv_active_formats st)" "\<not> initialize_succeeds_for pid op"
  shows "pid \<notin> set (priv_active_formats (step st op))"
proof (cases op)
  case (Register p cc vd)
  then show ?thesis using assms register_plugin_cases [of st p cc vd] by auto
next
  case (Initialize q i)
  then show ?thesis using assms initialize_active_formats [of st q i] by auto
next
  case (Shutdown q s)
  then show ?thesis using assms shutdown_active_formats [of st q s] by auto
qed

lemma active_formats_run:
  assumes "pid \<notin> set (priv_active_formats st)"
    "list_all (\<lambda>op. \<not> initialize_succeeds_for pid op) ops"
  shows "pid \<notin> set (priv_active_formats (run st ops))"
  using assms unfolding run_def
  by (induction ops arbitrary: st) (simp_all add: active_formats_step)

text \<open>A registered plugin stays registered, as the same object.\<close>

lemma plugin_kept_step:
  assumes "map_of (priv_plugins st) pid = Some p"
  shows "map_of (priv_plugins (step st op)) pid = Some p"
proof (cases op)
  case (Register q cc vd)
  then show ?thesis using assms register_plugin_cases [of st q cc vd] by auto
next
  case (Initialize q i)
  then show ?thesis using assms initialize_plugin_cases [of st q i] by auto
next
  case (Shutdown q s)
  then show ?thesis using assms shutdown_plugin_cases [of st q s] by auto
qed

lemma status_error_step:
  assumes wf: "wf_registry st" and err: "status_of st pid = Some ERROR"
    and p: "map_of (priv_plugins st) pid = Some p"
    and quiet: "plugin_truthy p \<longrightarrow>
          \<not> initialize_succeeds_for pid op \<and> \<not> shutdown_succeeds_for pid op \<and>
          \<not> initialize_escapes_for pid op"
  shows "status_of (step st op) pid = Some ERROR"
proof -
  from err obtain a where a: "map_of (priv_metadata st) pid = Some a"
    and sa: "tf_status (md_format (store st a)) = ERROR"
    by (auto simp: status_of_alt split: option.splits)
  have dist: "distinct (map snd (priv_metadata st))" using wf by (simp add: wf_registry_def)
  show ?thesis
  proof (cases op)
    case (Register q cc vd)
    from register_plugin_cases [of st q cc vd] show ?thesis
    proof
      assume "snd (register_plugin st q cc vd) = st"
      then show ?thesis using Register err by simp
    next
      assume new: "plugin_id q \<notin> fst ` set (priv_plugins st) \<and>
        snd (register_plugin st q cc vd) =
          st\<lparr>store := (store st)(next_ref st :=
              \<lparr>md_id = plugin_id q, md_name = plugin_name q, md_version = plugin_version q,
               md_format = \<lparr>tf_name = plugin_name q, tf_version = plugin_version q,
                            tf_dependencies = [], tf_enabled = True, tf_status = REGISTERED\<rparr>,
               md_interfaces = get_implemented_interfaces q, md_dependencies = []\<rparr>),
         next_ref := Suc (next_ref st),
         priv_plugins := priv_plugins st @ [(plugin_id q, q)],
         priv_metadata := dict_set (plugin_id q) (next_ref st) (priv_metadata st)\<rparr>"
      then have fresh: "plugin_id q \<notin> fst ` set (priv_metadata st)"
        using wf_keys [OF wf] by simp
      have "(pid, a) \<in> set (priv_metadata st)" using a by (rule map_of_SomeD)
      then have "a < next_ref st" using wf by (auto simp: wf_registry_def list_all_iff)
      then have ne: "a \<noteq> next_ref st" by simp
      show ?thesis using Register new fresh a sa ne
        by (simp add: status_of_alt dict_set_fresh)
    qed
  next
    case (Initialize q i)
    show ?thesis
    proof (cases "q = pid")
      case True
      show ?thesis
      proof (cases "plugin_truthy p")
        case False
        then show ?thesis using Initialize True p err by (simp add: initialize_not_plugin)
      next
        case truthy: True
        with quiet Initialize True have
          "\<not> initialize_succeeds_for pid (Initialize pid i)"
          "\<not> initialize_escapes_for pid (Initialize pid i)" by simp_all
        then obtain e where "i = Settles (Raises e)"
        proof (cases i)
          case (Settles r)
          assume "\<not> initialize_succeeds_for pid (Initialize pid i)"
            and "\<And>e. i = Settles (Raises e) \<Longrightarrow> thesis"
          then show thesis using Settles by (cases r) auto
        qed auto
        then show ?thesis using Initialize True p truthy a
          by (simp add: initialize_failure_state status_of_set_status)
      qed
    next
      case False
      from initialize_plugin_cases [of st q i] show ?thesis
      proof (elim disjE exE conjE)
        assume "snd (initialize_plugin st q i) = st"
        then show ?thesis using Initialize err by simp
      next
        fix pq b assume b: "map_of (priv_metadata st) q = Some b"
          and s: "snd (initialize_plugin st q i) = set_status st b INITIALIZING"
        show ?thesis using Initialize err
          by (simp add: s status_of_set_status_other [OF dist b False])
      next
        fix pq b assume b: "map_of (priv_metadata st) q = Some b"
          and s: "snd (initialize_plugin st q i) =
                    set_status (set_status st b INITIALIZING) b ERROR"
        have "status_of (set_status (set_status st b INITIALIZING) b ERROR) pid
                = status_of (set_status st b INITIALIZING) pid"
          by (rule status_of_set_status_other [OF _ _ False]) (simp_all add: dist b)
        then show ?thesis using Initialize err
          by (simp add: s status_of_set_status_other [OF dist b False])
      next
        fix pq b assume b: "map_of (priv_metadata st) q = Some b"
          and s: "snd (initialize_plugin st q i) =
             (set_status (set_status st b INITIALIZING) b ACTIVE)
               \<lparr>priv_active_formats :=
                  (if q \<in> set (priv_active_formats st) then priv_active_formats st
                   else priv_active_formats st @ [q])\<rparr>"
        have "status_of (set_status (set_status st b INITIALIZING) b ACTIVE) pid
                = status_of (set_status st b INITIALIZING) pid"
          by (rule status_of_set_status_other [OF _ _ False]) (simp_all add: dist b)
        then show ?thesis using Initialize err
          by (simp add: s status_of_set_status_other [OF dist b False])
      qed
    qed
  next
    case (Shutdown q i)
    show ?thesis
    proof (cases "q = pid")
      case True
      show ?thesis
      proof (cases "plugin_truthy p")
        case False
        then show ?thesis using Shutdown True p err by (simp add: shutdown_not_plugin)
      next
        case truthy: True
        with quiet Shutdown True have ns: "\<not> shutdown_succeeds_for pid (Shutdown pid i)" by simp
        show ?thesis
        proof (cases i)
          case (Settles r)
          with ns obtain e where "r = Raises e" by (cases r) auto
          then show ?thesis using Shutdown True Settles p truthy err
            by (simp add: shutdown_failure_state)
        next
          case (Escapes e)
          then show ?thesis using Shutdown True p truthy err
            by (simp add: shutdown_failure_state)
        qed
      qed
    next
      case False
      from shutdown_plugin_cases [of st q i] show ?thesis
      proof (elim disjE exE conjE)
        assume "snd (shutdown_plugin st q i) = st"
        then show ?thesis using Shutdown err by simp
      next
        fix pq b assume b: "map_of (priv_metadata st) q = Some b"
          and s: "snd (shutdown_plugin st q i) =
            (set_status st b REGISTERED)
              \<lparr>priv_active_formats := remove1 q (priv_active_formats st)\<rparr>"
        show ?thesis using Shutdown err
          by (simp add: s status_of_set_status_other [OF dist b False])
      qed
    qed
  qed
qed

lemma status_error_run:
  assumes "wf_registry st" "status_of st pid = Some ERROR"
    "map_of (priv_plugins st) pid = Some p"
    "plugin_truthy p \<longrightarrow>
       list_all (\<lambda>op. \<not> initialize_succeeds_for pid op \<and> \<not> shutdown_succeeds_for pid op \<and>
                      \<not> initialize_escapes_for pid op) ops"
  shows "status_of (run st ops) pid = Some ERROR"
  using assms unfolding run_def
proof (induction ops arbitrary: st)
  case Nil
  then show ?case by simp
next
  case (Cons op ops)
  have 1: "wf_registry (step st op)" using Cons.prems(1) by (rule wf_step)
  have 2: "status_of (step st op) pid = Some ERROR"
    using Cons.prems by (intro status_error_step [where p = p]) auto
  have 3: "map_of (priv_plugins (step st op)) pid = Some p"
    using Cons.prems(3) by (rule plugin_kept_step)
  have 4: "plugin_truthy p \<longrightarrow>
       list_all (\<lambda>op. \<not> initialize_succeeds_for pid op \<and> \<not> shutdown_succeeds_for pid op \<and>
                      \<not> initialize_escapes_for pid op) ops"
    using Cons.prems(4) by simp
  from Cons.IH [OF 1 2 3 4] show ?case by simp
qed

section \<open>Facts about the sample inputs\<close>

lemma delta_registered_eq:
  "delta_registered =
     \<lparr>store = (\<lambda>a. blank_metadata)
        (0 := \<lparr>md_id = ''delta'', md_name = ''Delta Lake'', md_version = ''1.0.0'',
               md_format = \<lparr>tf_name = ''Delta Lake'', tf_version = ''1.0.0'',
                            tf_dependencies = [], tf_enabled = True, tf_status = REGISTERED\<rparr>,
               md_interfaces = [''DeltaPlugin'', ''BaseTableFormatPlugin'',
                                ''ITableFormatPlugin'', ''ABC''],
               md_dependencies = []\<rparr>),
      next_ref = Suc 0,
      priv_plugins = [(''delta'', delta_plugin)],
      priv_metadata = [(''delta'', 0)],
      priv_active_formats = []\<rparr>"
  by (simp add: delta_registered_def register_plugin_def new_registry_def compatible_def
      deps_ok_def dict_set_def get_implemented_interfaces_def delta_plugin_def)

lemma delta_truthy: "plugin_truthy delta_plugin"
  by (simp add: delta_plugin_def)

lemma wf_delta_registered: "wf_registry delta_registered"
  by (simp add: delta_registered_eq wf_registry_def)

lemma delta_registered_plugin: "map_of (priv_plugins delta_registered) ''delta'' = Some delta_plugin"
  by (simp add: delta_registered_eq)

lemma delta_registered_metadata: "map_of (priv_metadata delta_registered) ''delta'' = Some 0"
  by (simp add: delta_registered_eq)

lemma delta_registered_status: "status_of delta_registered ''delta'' = Some REGISTERED"
  by (simp add: delta_registered_eq status_of_alt)

lemma delta_failed_eq:
  "delta_failed = set_status (set_status delta_registered 0 INITIALIZING) 0 ERROR"
  by (simp add: delta_failed_def
      initialize_failure_state [OF delta_registered_plugin delta_truthy delta_registered_metadata])

lemma wf_delta_failed: "wf_registry delta_failed"
  by (simp add: delta_failed_eq wf_delta_registered)

lemma delta_failed_plugin: "map_of (priv_plugins delta_failed) ''delta'' = Some delta_plugin"
  by (simp add: delta_failed_eq delta_registered_plugin)

lemma delta_failed_metadata: "map_of (priv_metadata delta_failed) ''delta'' = Some 0"
  by (simp add: delta_failed_eq delta_registered_metadata)

lemma delta_failed_status: "status_of delta_failed ''delta'' = Some ERROR"
  by (simp add: delta_failed_eq status_of_set_status delta_registered_metadata)

lemma quiet_registered_eq:
  "priv_plugins quiet_registered = [(''quiet'', quiet_plugin)]"
  "priv_metadata quiet_registered = [(''quiet'', 0)]"
  "priv_active_formats quiet_registered = []"
  "tf_status (md_format (store quiet_registered 0)) = REGISTERED"
  by (simp_all add: quiet_registered_def register_plugin_def new_registry_def compatible_def
      deps_ok_def dict_set_def quiet_plugin_def)

lemma quiet_falsy: "not_plugin (map_of (priv_plugins quiet_registered) ''quiet'')"
  by (simp add: quiet_registered_eq quiet_plugin_def)

section \<open>The dependency graph and the merge\<close>

lemma sample_graph:
  "build_graph [plugin1_metadata, plugin2_metadata] =
     [(''numpy'', [(''plugin1'', ''>=1.20.0''), (''plugin2'', ''<1.20.0'')])]"
  by (simp add: build_graph_def plugin1_metadata_def plugin2_metadata_def numpy_spec_def
      add_requirement_def dict_set_def set_add_def)

lemma merge_first_element:
  assumes "requirements \<noteq> []" "set (ext_iter ext requirements) = set requirements"
  shows "\<exists>r \<in> set requirements. merge_version_requirements ext requirements = Returns (Some (snd r))"
proof (cases "ext_iter ext requirements")
  case Nil
  with assms show ?thesis by simp
next
  case (Cons first rest)
  then have "first \<in> set requirements" using assms(2) by auto
  then show ?thesis using Cons assms(1) by (auto simp: merge_version_requirements_def)
qed


section \<open>The validation loop\<close>

lemma check_dependency_eq:
  "check_dependency ext pid item s =
     (if spec_scope (snd item) = TEST then s
      else
        (case ext_Requirement ext (fst item @ spec_version (snd item)) of
           Raises e \<Rightarrow> add_error ext (dep003 pid (fst item) e) (s\<lparr>cs_lookups := cs_lookups s @ [fst item]\<rparr>)
         | Returns specifier \<Rightarrow>
             if \<not> specifier (Version ''0.0.0'') then
               if spec_type (snd item) = REQUIRED
               then add_error ext (dep002 pid (fst item) (snd item) (Version ''0.0.0''))
                      (s\<lparr>cs_lookups := cs_lookups s @ [fst item]\<rparr>)
               else add_warning (mismatch_warning (fst item) (Version ''0.0.0'') (snd item))
                      (s\<lparr>cs_lookups := cs_lookups s @ [fst item]\<rparr>)
             else s\<lparr>cs_lookups := cs_lookups s @ [fst item]\<rparr>))"
  by (simp add: check_dependency_def get_installed_version_def Let_def)

lemma check_dependency_lookups:
  "cs_lookups (check_dependency ext pid item s) =
     cs_lookups s @ (if spec_scope (snd item) = TEST then [] else [fst item])"
  by (simp add: check_dependency_eq add_error_def add_warning_def split: outcome.splits)

lemma check_dependencies_lookups:
  "cs_lookups (check_dependencies ext pid deps s) =
     cs_lookups s @ map fst (filter (\<lambda>item. spec_scope (snd item) \<noteq> TEST) deps)"
  unfolding check_dependencies_def
  by (induction deps arbitrary: s) (simp_all add: check_dependency_lookups)

text \<open>What one turn of the loop appends.\<close>

lemma check_dependency_appends:
  "\<exists>es ws. cs_errors (check_dependency ext pid item s) = cs_errors s @ es
         \<and> cs_warnings (check_dependency ext pid item s) = cs_warnings s @ ws
         \<and> (\<forall>e \<in> set es. er_code e = ''DEP002'' \<or> er_code e = ''DEP003'')
         \<and> (\<forall>w \<in> set ws. w = mismatch_warning (fst item) (Version ''0.0.0'') (snd item))"
  by (simp add: check_dependency_eq add_error_def add_warning_def dep002_def dep003_def
      split: outcome.splits)

lemma check_dependencies_appends:
  "\<exists>es ws. cs_errors (check_dependencies ext pid deps s) = cs_errors s @ es
         \<and> cs_warnings (check_dependencies ext pid deps s) = cs_warnings s @ ws
         \<and> (\<forall>e \<in> set es. er_code e = ''DEP002'' \<or> er_code e = ''DEP003'')
         \<and> (\<forall>w \<in> set ws. \<exists>item \<in> set deps.
               w = mismatch_warning (fst item) (Version ''0.0.0'') (snd item))"
  unfolding check_dependencies_def
proof (induction deps arbitrary: s)
  case Nil
  then show ?case by simp
next
  case (Cons item deps)
  from check_dependency_appends [of ext pid item s] obtain es1 ws1 where
    1: "cs_errors (check_dependency ext pid item s) = cs_errors s @ es1"
       "cs_warnings (check_dependency ext pid item s) = cs_warnings s @ ws1"
       "\<forall>e \<in> set es1. er_code e = ''DEP002'' \<or> er_code e = ''DEP003''"
       "\<forall>w \<in> set ws1. w = mismatch_warning (fst item) (Version ''0.0.0'') (snd item)"
    by blast
  from Cons.IH [of "check_dependency ext pid item s"] obtain es2 ws2 where
    2: "cs_errors (foldl (\<lambda>s item. check_dependency ext pid item s)
                    (check_dependency ext pid item s) deps)
          = cs_errors (check_dependency ext pid item s) @ es2"
       "cs_warnings (foldl (\<lambda>s item. check_dependency ext pid item s)
                    (check_dependency ext pid item s) deps)
          = cs_warnings (check_dependency ext pid item s) @ ws2"
       "\<forall>e \<in> set es2. er_code e = ''DEP002'' \<or> er_code e = ''DEP003''"
       "\<forall>w \<in> set ws2. \<exists>item \<in> set deps.
               w = mismatch_warning (fst item) (Version ''0.0.0'') (snd item)"
    by blast
  show ?case
  proof (intro exI [of _ "es1 @ es2"] exI [of _ "ws1 @ ws2"] conjI)
    show "cs_errors (foldl (\<lambda>s item. check_dependency ext pid item s) s (item # deps))
            = cs_errors s @ es1 @ es2" using 1 2 by simp
    show "cs_warnings (foldl (\<lambda>s item. check_dependency ext pid item s) s (item # deps))
            = cs_warnings s @ ws1 @ ws2" using 1 2 by simp
    show "\<forall>e \<in> set (es1 @ es2). er_code e = ''DEP002'' \<or> er_code e = ''DEP003''"
      using 1 2 by auto
    show "\<forall>w \<in> set (ws1 @ ws2). \<exists>item \<in> set (item # deps).
               w = mismatch_warning (fst item) (Version ''0.0.0'') (snd item)"
      using 1 2 by auto
  qed
qed

lemma check_dependencies_errors_mono:
  "set (cs_errors s) \<subseteq> set (cs_errors (check_dependencies ext pid deps s))"
  using check_dependencies_appends [of ext pid deps s] by auto

lemma check_dependency_dep002:
  assumes "spec_scope (snd item) = RUNTIME" "spec_type (snd item) = REQUIRED"
    "ext_Requirement ext (fst item @ spec_version (snd item)) = Returns specifier"
    "\<not> specifier (Version ''0.0.0'')"
  shows "dep002 pid (fst item) (snd item) (Version ''0.0.0'') (ext_utcnow ext (cs_clock s))
           \<in> set (cs_errors (check_dependency ext pid item s))"
  using assms by (simp add: check_dependency_eq add_error_def)

lemma check_dependencies_dep002:
  assumes "item \<in> set deps" "spec_scope (snd item) = RUNTIME" "spec_type (snd item) = REQUIRED"
    "ext_Requirement ext (fst item @ spec_version (snd item)) = Returns specifier"
    "\<not> specifier (Version ''0.0.0'')"
  shows "\<exists>ts. dep002 pid (fst item) (snd item) (Version ''0.0.0'') ts
           \<in> set (cs_errors (check_dependencies ext pid deps s))"
  using assms(1)
proof (induction deps arbitrary: s)
  case Nil
  then show ?case by simp
next
  case (Cons d deps)
  have unfold: "check_dependencies ext pid (d # deps) s
                  = check_dependencies ext pid deps (check_dependency ext pid d s)"
    by (simp add: check_dependencies_def)
  show ?case
  proof (cases "item = d")
    case True
    have "dep002 pid (fst item) (snd item) (Version ''0.0.0'') (ext_utcnow ext (cs_clock s))
            \<in> set (cs_errors (check_dependency ext pid d s))"
      using check_dependency_dep002 [OF assms(2-5)] True by simp
    then show ?thesis
      using check_dependencies_errors_mono [of "check_dependency ext pid d s" ext pid deps]
      unfolding unfold by blast
  next
    case False
    with Cons.prems have "item \<in> set deps" by simp
    from Cons.IH [OF this] show ?thesis unfolding unfold .
  qed
qed

section \<open>The validation cache\<close>

lemma validate_hit:
  assumes "served_from_cache ext self clk m"
  shows "\<exists>result timestamp.
           validation_cache self (md_id m, md_version m) = Some (result, timestamp)
         \<and> validate_dependencies ext self clk m =
             \<lparr>vr_result = result, vr_manager = self, vr_clock = Suc clk,
              vr_errors = [], vr_warnings = [], vr_lookups = []\<rparr>"
  using assms
  by (auto simp: served_from_cache_def validate_dependencies_def split: option.splits)

lemma validate_miss:
  assumes "\<not> served_from_cache ext self clk m"
  shows "validate_dependencies ext self clk m =
           compute_validation ext self
             (case validation_cache self (md_id m, md_version m) of
                None \<Rightarrow> clk | Some e \<Rightarrow> Suc clk) m"
  using assms
  by (auto simp: served_from_cache_def validate_dependencies_def split: option.splits)

lemma compute_validation_fields:
  "vr_result (compute_validation ext self c m) =
     \<lparr>is_valid = (vr_errors (compute_validation ext self c m) = []),
      errors = map (ext_str ext) (vr_errors (compute_validation ext self c m)),
      warnings = vr_warnings (compute_validation ext self c m)\<rparr>"
  "vr_lookups (compute_validation ext self c m) =
     map fst (filter (\<lambda>item. spec_scope (snd item) \<noteq> TEST) (md_dependencies m))"
  "\<exists>n. vr_clock (compute_validation ext self c m) = Suc n
      \<and> validation_cache (vr_manager (compute_validation ext self c m)) (md_id m, md_version m)
          = Some (vr_result (compute_validation ext self c m), ext_utcnow ext n)"
  "config (vr_manager (compute_validation ext self c m)) = config self"
  "vr_errors (compute_validation ext self c m) =
     cs_errors (check_dependencies ext (md_id m) (md_dependencies m)
       \<lparr>cs_errors = [], cs_warnings = [], cs_clock = c, cs_lookups = []\<rparr>)"
  "vr_warnings (compute_validation ext self c m) =
     cs_warnings (check_dependencies ext (md_id m) (md_dependencies m)
       \<lparr>cs_errors = [], cs_warnings = [], cs_clock = c, cs_lookups = []\<rparr>)"
  by (simp_all add: compute_validation_def Let_def check_dependencies_lookups)



lemma validate_emits:
  "(\<forall>e \<in> set (vr_errors (validate_dependencies ext self clk m)).
       er_code e = ''DEP002'' \<or> er_code e = ''DEP003'')
   \<and> (\<forall>w \<in> set (vr_warnings (validate_dependencies ext self clk m)).
       \<exists>item \<in> set (md_dependencies m).
         w = mismatch_warning (fst item) (Version ''0.0.0'') (snd item))"
proof (cases "served_from_cache ext self clk m")
  case True
  from validate_hit [OF True] show ?thesis by auto
next
  case False
  define c where "c = (case validation_cache self (md_id m, md_version m) of
                None \<Rightarrow> clk | Some e \<Rightarrow> Suc clk)"
  from check_dependencies_appends [of ext "md_id m" "md_dependencies m"
      "\<lparr>cs_errors = [], cs_warnings = [], cs_clock = c, cs_lookups = []\<rparr>"]
  show ?thesis
    unfolding validate_miss [OF False] c_def [symmetric] compute_validation_fields(5,6)
    by auto
qed


lemma fresh_manager_not_served:
  "\<not> served_from_cache ext (DependencyManager_init cfg) clk m"
  by (simp add: served_from_cache_def DependencyManager_init_def)


section \<open>Facts about the sample validations\<close>








lemma bare_run:
  "validate_dependencies sample_ext (DependencyManager_init None) 0 bare_plugin_metadata =
     \<lparr>vr_result = \<lparr>is_valid = True, errors = [], warnings = []\<rparr>,
      vr_manager = (DependencyManager_init None)
        \<lparr>validation_cache := (\<lambda>k. None)((''test-plugin'', ''1.0.0'') :=
            Some (\<lparr>is_valid = True, errors = [], warnings = []\<rparr>, 0))\<rparr>,
      vr_clock = 1, vr_errors = [], vr_warnings = [], vr_lookups = []\<rparr>"
  by (simp add: validate_dependencies_def compute_validation_def DependencyManager_init_def
      bare_plugin_metadata_def sample_plugin_metadata_def check_dependencies_def sample_ext_def
      Let_def)

section \<open>The loop against the verdict on each dependency\<close>


lemma length_stamp [simp]: "length (stamp ext c mks) = length mks"
  by (induction mks arbitrary: c) simp_all







section \<open>Registration\<close>

text \<open>
  Claim C6. When the id of the plugin is already a key of the registry's plugin map,
  \<open>register_plugin\<close> returns a result with \<open>is_valid = False\<close> and the single error
  "Plugin <id> is already registered", and the whole registry state (plugin map,
  metadata map, metadata objects, active formats) is exactly what it was; in particular
  the number of registered plugins is unchanged.
\<close>

theorem register_plugin_already_registered:
  assumes "plugin_id p \<in> fst ` set (priv_plugins st)"
  shows "register_plugin st p cc vd =
           (Returns \<lparr>is_valid = False,
                     errors = [''Plugin '' @ plugin_id p @ '' is already registered''],
                     warnings = []\<rparr>, st)
         \<and> priv_plugins (snd (register_plugin st p cc vd)) = priv_plugins st
         \<and> priv_metadata (snd (register_plugin st p cc vd)) = priv_metadata st
         \<and> priv_active_formats (snd (register_plugin st p cc vd)) = priv_active_formats st
         \<and> length (priv_plugins (snd (register_plugin st p cc vd))) = length (priv_plugins st)"
  using assms by (simp add: register_plugin_def)

theorem register_plugin_already_registered_witness:
  "plugin_id delta_plugin \<in> fst ` set (priv_plugins delta_registered)
   \<and> register_plugin delta_registered delta_plugin compatible deps_ok =
       (Returns \<lparr>is_valid = False,
                 errors = [''Plugin '' @ plugin_id delta_plugin @ '' is already registered''],
                 warnings = []\<rparr>, delta_registered)
   \<and> length (priv_plugins (snd (register_plugin delta_registered delta_plugin compatible deps_ok)))
       = length (priv_plugins delta_registered)"
proof -
  have h: "plugin_id delta_plugin \<in> fst ` set (priv_plugins delta_registered)"
    by (simp add: delta_registered_eq delta_plugin_def)
  show ?thesis
    using h register_plugin_already_registered [OF h, of compatible deps_ok] by simp
qed

section \<open>Shutdown\<close>




section \<open>Initialization\<close>

text \<open>
  Claim C5 says that \<open>initialize_plugin\<close> sets the status to \<open>ERROR\<close> and returns a failure
  result whenever the initialize action of a registered plugin raises. The status is set
  to \<open>INITIALIZING\<close> before the action is awaited and the handler is \<open>except Exception\<close>:
  when the action is left by an exception that is not an \<open>Exception\<close>, such as the
  \<open>asyncio.CancelledError\<close> of a cancelled task, that exception leaves \<open>initialize_plugin\<close>,
  no result is returned and the status stays \<open>INITIALIZING\<close>. And the guard \<open>if not plugin\<close>
  tests the truth value of the plugin object: a registered plugin whose truth value is
  false is answered "not found", and its status is not touched.
\<close>

theorem initialize_plugin_failure_not_always_error:
  "map_of (priv_plugins delta_registered) ''delta'' = Some delta_plugin
   \<and> fst (initialize_plugin delta_registered ''delta'' (Escapes ''cancelled''))
       = Escapes ''cancelled''
   \<and> status_of (snd (initialize_plugin delta_registered ''delta'' (Escapes ''cancelled'')))
        ''delta'' = Some INITIALIZING
   \<and> map_of (priv_plugins quiet_registered) ''quiet'' = Some quiet_plugin
   \<and> initialize_plugin quiet_registered ''quiet'' (Settles (Raises ''boom'')) =
       (Settles (Returns \<lparr>is_valid = False, errors = [''Plugin '' @ ''quiet'' @ '' not found''],
                          warnings = []\<rparr>), quiet_registered)
   \<and> status_of quiet_registered ''quiet'' = Some REGISTERED"
proof -
  have "initialize_plugin delta_registered ''delta'' (Escapes ''cancelled'')
          = (Escapes ''cancelled'', set_status delta_registered 0 INITIALIZING)"
    by (rule initialize_escape_state
        [OF delta_registered_plugin delta_truthy delta_registered_metadata])
  moreover have "status_of (set_status delta_registered 0 INITIALIZING) ''delta''
                   = Some INITIALIZING"
    by (simp add: status_of_set_status delta_registered_metadata)
  moreover have "status_of quiet_registered ''quiet'' = Some REGISTERED"
    by (simp add: status_of_alt quiet_registered_eq)
  moreover have "map_of (priv_plugins quiet_registered) ''quiet'' = Some quiet_plugin"
    by (simp add: quiet_registered_eq)
  ultimately show ?thesis
    by (simp add: delta_registered_plugin initialize_not_plugin [OF quiet_falsy])
qed

text \<open>
  Claim C5, amended. In a well-formed registry state (every state built from a new
  registry is one, \<open>wf_reachable\<close>), for a registered plugin id whose plugin object is
  truthy and whose initialize action raises an \<open>Exception\<close>, \<open>initialize_plugin\<close> returns a
  failure result whose message wraps the error text and the plugin's status becomes
  \<open>ERROR\<close> (it is not put back to \<open>REGISTERED\<close>). Whatever the action raises, the
  active-format list is what it was, so the id is not added. In particular, along any
  sequence of registry calls in which no initialize action of the plugin succeeds, an id
  that is not in the active-format list never enters it, and it is never in the list of a
  registry that started empty. (An exception that is not an \<open>Exception\<close> leaves the
  operation with the status \<open>INITIALIZING\<close>; a plugin object whose truth value is false is
  answered "not found" and nothing changes.)
\<close>

theorem initialize_plugin_failure:
  assumes "wf_registry st" and "map_of (priv_plugins st) pid = Some p"
  shows "(plugin_truthy p \<longrightarrow>
            fst (initialize_plugin st pid (Settles (Raises e))) =
              Settles (Returns
                \<lparr>is_valid = False,
                 errors = [''Failed to initialize plugin '' @ pid @ '': '' @ e],
                 warnings = []\<rparr>)
            \<and> status_of (snd (initialize_plugin st pid (Settles (Raises e)))) pid = Some ERROR)
         \<and> (plugin_truthy p \<longrightarrow>
            fst (initialize_plugin st pid (Escapes e)) = Escapes e
            \<and> status_of (snd (initialize_plugin st pid (Escapes e))) pid = Some INITIALIZING)
         \<and> (\<not> plugin_truthy p \<longrightarrow>
            initialize_plugin st pid i =
              (Settles (Returns \<lparr>is_valid = False,
                                 errors = [''Plugin '' @ pid @ '' not found''],
                                 warnings = []\<rparr>), st))
         \<and> priv_active_formats (snd (initialize_plugin st pid (Settles (Raises e))))
             = priv_active_formats st
         \<and> priv_active_formats (snd (initialize_plugin st pid (Escapes e)))
             = priv_active_formats st
         \<and> (pid \<notin> set (priv_active_formats st) \<and>
             list_all (\<lambda>op. \<not> initialize_succeeds_for pid op) ops \<longrightarrow>
             pid \<notin> set (priv_active_formats (run st ops)))
         \<and> (list_all (\<lambda>op. \<not> initialize_succeeds_for pid op) ops \<longrightarrow>
             pid \<notin> set (priv_active_formats (run (new_registry h) ops)))"
proof -
  from registered_has_metadata [OF assms] obtain a
    where a: "map_of (priv_metadata st) pid = Some a" ..
  have truthy: "fst (initialize_plugin st pid (Settles (Raises e))) =
              Settles (Returns
                \<lparr>is_valid = False,
                 errors = [''Failed to initialize plugin '' @ pid @ '': '' @ e],
                 warnings = []\<rparr>)
            \<and> status_of (snd (initialize_plugin st pid (Settles (Raises e)))) pid = Some ERROR
            \<and> fst (initialize_plugin st pid (Escapes e)) = Escapes e
            \<and> status_of (snd (initialize_plugin st pid (Escapes e))) pid = Some INITIALIZING"
    if "plugin_truthy p"
    using a by (simp add: initialize_failure_state [OF assms(2) that a]
        initialize_escape_state [OF assms(2) that a] status_of_set_status)
  have falsy: "initialize_plugin st pid i =
              (Settles (Returns \<lparr>is_valid = False,
                                 errors = [''Plugin '' @ pid @ '' not found''],
                                 warnings = []\<rparr>), st)"
    if "\<not> plugin_truthy p"
    using that assms(2) by (intro initialize_not_plugin) simp
  have kept: "priv_active_formats (snd (initialize_plugin st pid (Settles (Raises e))))
             = priv_active_formats st"
    "priv_active_formats (snd (initialize_plugin st pid (Escapes e))) = priv_active_formats st"
    using initialize_active_formats [of st pid "Settles (Raises e)"]
      initialize_active_formats [of st pid "Escapes e"] by simp_all
  have "pid \<notin> set (priv_active_formats (new_registry h))" by (simp add: new_registry_def)
  then show ?thesis
    using truthy falsy kept by (simp add: active_formats_run)
qed

theorem initialize_plugin_failure_witness:
  "wf_registry delta_registered
   \<and> map_of (priv_plugins delta_registered) ''delta'' = Some delta_plugin
   \<and> plugin_truthy delta_plugin
   \<and> fst (initialize_plugin delta_registered ''delta'' (Settles (Raises ''boom''))) =
       Settles (Returns
         \<lparr>is_valid = False,
          errors = [''Failed to initialize plugin '' @ ''delta'' @ '': '' @ ''boom''],
          warnings = []\<rparr>)
   \<and> status_of (snd (initialize_plugin delta_registered ''delta'' (Settles (Raises ''boom''))))
        ''delta'' = Some ERROR
   \<and> ''delta'' \<notin> set (priv_active_formats delta_registered)
   \<and> list_all (\<lambda>op. \<not> initialize_succeeds_for ''delta'' op)
        [Initialize ''delta'' (Settles (Raises ''boom'')), Shutdown ''delta'' (Settles (Returns ())),
         Initialize ''delta'' (Escapes ''cancelled'')]
   \<and> ''delta'' \<notin> set (priv_active_formats (run delta_registered
        [Initialize ''delta'' (Settles (Raises ''boom'')), Shutdown ''delta'' (Settles (Returns ())),
         Initialize ''delta'' (Escapes ''cancelled'')]))"
proof -
  have h1: "wf_registry delta_registered" by (rule wf_delta_registered)
  have h2: "map_of (priv_plugins delta_registered) ''delta'' = Some delta_plugin"
    by (rule delta_registered_plugin)
  have h3: "''delta'' \<notin> set (priv_active_formats delta_registered)"
    by (simp add: delta_registered_eq)
  have h4: "list_all (\<lambda>op. \<not> initialize_succeeds_for ''delta'' op)
        [Initialize ''delta'' (Settles (Raises ''boom'')), Shutdown ''delta'' (Settles (Returns ())),
         Initialize ''delta'' (Escapes ''cancelled'')]" by simp
  show ?thesis
    using h1 h2 h3 h4 delta_truthy
      initialize_plugin_failure [OF h1 h2, of "''boom''" "Escapes ''cancelled''"
        "[Initialize ''delta'' (Settles (Raises ''boom'')), Shutdown ''delta'' (Settles (Returns ())),
          Initialize ''delta'' (Escapes ''cancelled'')]" "\<lambda>a. blank_metadata"]
    by simp
qed

section \<open>The \<open>ERROR\<close> status\<close>

text \<open>
  Claim C3 says that a plugin in status \<open>ERROR\<close> stays there under every later call. The
  operations do not look at the current status: a later initialize that succeeds makes
  the plugin \<open>ACTIVE\<close>, and a shutdown that succeeds makes it \<open>REGISTERED\<close>.
\<close>

theorem error_status_is_not_terminal:
  "status_of delta_failed ''delta'' = Some ERROR
   \<and> status_of (run delta_failed [Initialize ''delta'' (Settles (Returns ()))]) ''delta''
       = Some ACTIVE
   \<and> status_of (run delta_failed [Shutdown ''delta'' (Settles (Returns ()))]) ''delta''
       = Some REGISTERED"
  by (simp add: run_def delta_failed_status
      initialize_success_state [OF delta_failed_plugin delta_truthy delta_failed_metadata]
      shutdown_success_state [OF delta_failed_plugin delta_truthy delta_failed_metadata]
      status_of_set_status delta_failed_metadata)

text \<open>
  Claim C3, amended. In a well-formed registry state, a plugin in status \<open>ERROR\<close> keeps
  that status across every \<open>register_plugin\<close> call, every initialize or shutdown call for
  another id, every shutdown call for its own id whose action does not succeed, and every
  initialize call for its own id whose action raises an \<open>Exception\<close> (and across every
  call at all when the plugin object's truth value is false). For a truthy plugin object,
  an \<open>initialize_plugin\<close> call whose action succeeds makes it \<open>ACTIVE\<close>, a
  \<open>shutdown_plugin\<close> call whose action succeeds makes it \<open>REGISTERED\<close>, and an
  \<open>initialize_plugin\<close> call whose action is left by an exception that is not an
  \<open>Exception\<close> leaves it \<open>INITIALIZING\<close>.
\<close>

theorem error_status_kept_until_successful_action:
  assumes "wf_registry st" and "status_of st pid = Some ERROR"
    and "map_of (priv_plugins st) pid = Some p"
  shows "((plugin_truthy p \<longrightarrow>
            list_all (\<lambda>op. \<not> initialize_succeeds_for pid op \<and> \<not> shutdown_succeeds_for pid op \<and>
                           \<not> initialize_escapes_for pid op) ops)
          \<longrightarrow> status_of (run st ops) pid = Some ERROR)
         \<and> (plugin_truthy p \<longrightarrow>
              status_of (snd (initialize_plugin st pid (Settles (Returns ())))) pid = Some ACTIVE
            \<and> status_of (snd (shutdown_plugin st pid (Settles (Returns ())))) pid
                = Some REGISTERED
            \<and> status_of (snd (initialize_plugin st pid (Escapes e))) pid = Some INITIALIZING)"
proof -
  from assms(2) obtain a where a: "map_of (priv_metadata st) pid = Some a"
    by (auto simp: status_of_alt split: option.splits)
  have moved: "status_of (snd (initialize_plugin st pid (Settles (Returns ())))) pid = Some ACTIVE
            \<and> status_of (snd (shutdown_plugin st pid (Settles (Returns ())))) pid
                = Some REGISTERED
            \<and> status_of (snd (initialize_plugin st pid (Escapes e))) pid = Some INITIALIZING"
    if "plugin_truthy p"
    using a by (simp add: initialize_success_state [OF assms(3) that a]
        shutdown_success_state [OF assms(3) that a]
        initialize_escape_state [OF assms(3) that a] status_of_set_status)
  show ?thesis
    using moved status_error_run [OF assms, of ops] by blast
qed

theorem error_status_kept_until_successful_action_witness:
  "wf_registry delta_failed
   \<and> status_of delta_failed ''delta'' = Some ERROR
   \<and> map_of (priv_plugins delta_failed) ''delta'' = Some delta_plugin
   \<and> plugin_truthy delta_plugin
   \<and> list_all (\<lambda>op. \<not> initialize_succeeds_for ''delta'' op \<and> \<not> shutdown_succeeds_for ''delta'' op
                    \<and> \<not> initialize_escapes_for ''delta'' op)
        [Shutdown ''delta'' (Escapes ''cancelled''), Initialize ''delta'' (Settles (Raises ''boom'')),
         Register delta_plugin compatible deps_ok, Initialize ''iceberg'' (Settles (Returns ()))]
   \<and> status_of (run delta_failed
        [Shutdown ''delta'' (Escapes ''cancelled''), Initialize ''delta'' (Settles (Raises ''boom'')),
         Register delta_plugin compatible deps_ok, Initialize ''iceberg'' (Settles (Returns ()))])
        ''delta'' = Some ERROR
   \<and> status_of (snd (initialize_plugin delta_failed ''delta'' (Settles (Returns ())))) ''delta''
       = Some ACTIVE
   \<and> status_of (snd (shutdown_plugin delta_failed ''delta'' (Settles (Returns ())))) ''delta''
       = Some REGISTERED
   \<and> status_of (snd (initialize_plugin delta_failed ''delta'' (Escapes ''cancelled''))) ''delta''
       = Some INITIALIZING"
proof -
  have h1: "wf_registry delta_failed" by (rule wf_delta_failed)
  have h2: "status_of delta_failed ''delta'' = Some ERROR" by (rule delta_failed_status)
  have h3: "map_of (priv_plugins delta_failed) ''delta'' = Some delta_plugin"
    by (rule delta_failed_plugin)
  have h4: "list_all (\<lambda>op. \<not> initialize_succeeds_for ''delta'' op \<and> \<not> shutdown_succeeds_for ''delta'' op
                    \<and> \<not> initialize_escapes_for ''delta'' op)
        [Shutdown ''delta'' (Escapes ''cancelled''), Initialize ''delta'' (Settles (Raises ''boom'')),
         Register delta_plugin compatible deps_ok, Initialize ''iceberg'' (Settles (Returns ()))]"
    by simp
  show ?thesis
    using h1 h2 h3 h4 delta_truthy
      error_status_kept_until_successful_action [OF h1 h2 h3, of
        "[Shutdown ''delta'' (Escapes ''cancelled''), Initialize ''delta'' (Settles (Raises ''boom'')),
         Register delta_plugin compatible deps_ok, Initialize ''iceberg'' (Settles (Returns ()))]"
        "''cancelled''"]
    by simp
qed

section \<open>Active formats and the \<open>ACTIVE\<close> status\<close>

text \<open>
  Claim C2 says that the active-format list holds exactly the ids whose status is
  \<open>ACTIVE\<close>. The failure branch of \<open>initialize_plugin\<close> sets the status to \<open>ERROR\<close> and
  leaves the list alone: after a plugin is registered, initialized with success and
  initialized again with a failing action, its id is still in the list while its status
  is \<open>ERROR\<close>.
\<close>

theorem active_formats_keeps_plugin_in_error:
  "priv_active_formats
     (run delta_registered
        [Initialize ''delta'' (Settles (Returns ())),
         Initialize ''delta'' (Settles (Raises ''boom''))]) = [''delta'']
   \<and> status_of
       (run delta_registered
          [Initialize ''delta'' (Settles (Returns ())),
           Initialize ''delta'' (Settles (Raises ''boom''))]) ''delta''
       = Some ERROR"
  by (simp add: run_def initialize_plugin_def delta_registered_eq status_of_alt set_status_def
      delta_plugin_def)

section \<open>Exceptions of the collaborators\<close>

text \<open>
  Claim C4 says that no exception of a collaborator leaves a public operation.
  \<open>register_plugin\<close> awaits the plugin's \<open>check_version_compatibility\<close> and
  \<open>validate_dependencies\<close> outside any \<open>try\<close>: when either raises, the exception leaves
  \<open>register_plugin\<close> and no result object is returned.
\<close>

theorem register_plugin_propagates_exceptions:
  "register_plugin (new_registry h) p (\<lambda>others. Raises e) vd = (Raises e, new_registry h)
   \<and> register_plugin (new_registry h) p compatible (Raises e) = (Raises e, new_registry h)"
  by (simp add: register_plugin_def new_registry_def compatible_def)

section \<open>Read accessors\<close>

text \<open>
  Claim C9 says that no mutation of a value returned by an accessor reaches the registry,
  a metadata record reached through the returned map included. The copy is shallow: a
  caller that reads the accessors of a registry holding the plugin \<open>delta\<close> and assigns
  \<open>ACTIVE\<close> to the status of the object under \<open>delta\<close> in the returned map has changed the
  status the registry holds for \<open>delta\<close>.
\<close>

theorem metadata_accessor_exposes_objects:
  "status_of delta_registered ''delta'' = Some REGISTERED
   \<and> status_of
       (snd (mutate (read_accessors delta_registered, delta_registered)
               (ObjectWrite ''delta'' mark_active))) ''delta'' = Some ACTIVE"
  by (simp add: read_accessors_def metadata_def delta_registered_eq status_of_alt mark_active_def)

lemma mutate_copies_frame:
  assumes "held_plugins c \<noteq> Internal" "held_metadata c \<noteq> Internal"
    "held_active_formats c \<noteq> Internal"
  shows "held_plugins (fst (mutate (c, st) m)) \<noteq> Internal
       \<and> held_metadata (fst (mutate (c, st) m)) \<noteq> Internal
       \<and> held_active_formats (fst (mutate (c, st) m)) \<noteq> Internal
       \<and> priv_plugins (snd (mutate (c, st) m)) = priv_plugins st
       \<and> priv_metadata (snd (mutate (c, st) m)) = priv_metadata st
       \<and> priv_active_formats (snd (mutate (c, st) m)) = priv_active_formats st
       \<and> next_ref (snd (mutate (c, st) m)) = next_ref st"
  using assms by (cases m) (auto split: handle.splits option.splits)

lemma mutate_all_copies_frame:
  assumes "held_plugins (fst cs) \<noteq> Internal" "held_metadata (fst cs) \<noteq> Internal"
    "held_active_formats (fst cs) \<noteq> Internal"
  shows "priv_plugins (snd (mutate_all cs ms)) = priv_plugins (snd cs)
       \<and> priv_metadata (snd (mutate_all cs ms)) = priv_metadata (snd cs)
       \<and> priv_active_formats (snd (mutate_all cs ms)) = priv_active_formats (snd cs)
       \<and> next_ref (snd (mutate_all cs ms)) = next_ref (snd cs)"
  using assms unfolding mutate_all_def
proof (induction ms arbitrary: cs)
  case Nil
  then show ?case by simp
next
  case (Cons m ms)
  obtain c st where cs: "cs = (c, st)" by (cases cs)
  from Cons.prems have f: "held_plugins c \<noteq> Internal" "held_metadata c \<noteq> Internal"
    "held_active_formats c \<noteq> Internal" by (simp_all add: cs)
  note fr = mutate_copies_frame [OF f, of st m]
  from fr Cons.IH [of "mutate (c, st) m"] show ?case by (simp add: cs)
qed

text \<open>
  Claim C9, amended. The accessors return shallow copies: whatever the caller then writes
  to the containers it was given, and to the objects it reaches through them, the
  registry's plugin map, its metadata map (which object each id has) and its
  active-format list are unchanged; the metadata objects in the returned map are the
  registry's own, and an assignment to one of them is visible in the registry.
\<close>

theorem accessors_return_shallow_copies:
  "priv_plugins (snd (mutate_all (read_accessors st, st) ms)) = priv_plugins st
   \<and> priv_metadata (snd (mutate_all (read_accessors st, st) ms)) = priv_metadata st
   \<and> priv_active_formats (snd (mutate_all (read_accessors st, st) ms)) = priv_active_formats st
   \<and> metadata_of (snd (mutate (read_accessors st, st) (ObjectWrite pid f))) pid
       = map_option f (metadata_of st pid)"
proof -
  have "held_plugins (fst (read_accessors st, st)) \<noteq> Internal"
    "held_metadata (fst (read_accessors st, st)) \<noteq> Internal"
    "held_active_formats (fst (read_accessors st, st)) \<noteq> Internal"
    by (simp_all add: read_accessors_def plugins_def metadata_def active_formats_def)
  from mutate_all_copies_frame [OF this, of ms] show ?thesis
    by (simp add: read_accessors_def metadata_def metadata_of_def split: option.splits)
qed
section \<open>Resolution across plugins\<close>

text \<open>
  Claim C1 says that two plugins that require \<open>numpy>=1.20.0\<close> and \<open>numpy<1.20.0\<close> get
  \<open>is_valid = False\<close> with an incompatible-version error. \<open>_merge_version_requirements\<close>
  returns the version text of whichever element the set yields first, so the merged
  requirement is a non-empty text and no error is built: whatever the iteration order of
  the set, \<open>resolve_dependencies\<close> returns a valid result with no errors on these two
  plugins.
\<close>

theorem resolve_dependencies_misses_conflict:
  assumes "set (ext_iter ext [(''plugin1'', ''>=1.20.0''), (''plugin2'', ''<1.20.0'')]) =
           set [(''plugin1'', ''>=1.20.0''), (''plugin2'', ''<1.20.0'')]"
  shows "resolve_dependencies ext clk [plugin1_metadata, plugin2_metadata] =
           (\<lparr>is_valid = True, errors = [], warnings = []\<rparr>, [], clk)"
proof -
  have "\<exists>r \<in> set [(''plugin1'', ''>=1.20.0''), (''plugin2'', ''<1.20.0'')].
          merge_version_requirements ext [(''plugin1'', ''>=1.20.0''), (''plugin2'', ''<1.20.0'')]
            = Returns (Some (snd r))"
    using assms by (intro merge_first_element) simp_all
  then have "merge_version_requirements ext [(''plugin1'', ''>=1.20.0''), (''plugin2'', ''<1.20.0'')]
               = Returns (Some ''>=1.20.0'')
           \<or> merge_version_requirements ext [(''plugin1'', ''>=1.20.0''), (''plugin2'', ''<1.20.0'')]
               = Returns (Some ''<1.20.0'')"
    by auto
  then show ?thesis
    by (auto simp: resolve_dependencies_def sample_graph check_conflict_def)
qed

theorem resolve_dependencies_misses_conflict_witness:
  "set (ext_iter sample_ext [(''plugin1'', ''>=1.20.0''), (''plugin2'', ''<1.20.0'')]) =
     set [(''plugin1'', ''>=1.20.0''), (''plugin2'', ''<1.20.0'')]
   \<and> resolve_dependencies sample_ext 0 [plugin1_metadata, plugin2_metadata] =
       (\<lparr>is_valid = True, errors = [], warnings = []\<rparr>, [], 0)"
proof -
  have h: "set (ext_iter sample_ext [(''plugin1'', ''>=1.20.0''), (''plugin2'', ''<1.20.0'')]) =
     set [(''plugin1'', ''>=1.20.0''), (''plugin2'', ''<1.20.0'')]"
    by (simp add: sample_ext_def)
  show ?thesis using h resolve_dependencies_misses_conflict [OF h, of 0] by simp
qed

section \<open>The validation cache: claims\<close>



section \<open>The placeholder for the installed version\<close>

text \<open>
  Claim C10 says that, for every plugin metadata, every Runtime Required dependency whose
  requirement excludes 0.0.0 yields a \<open>DEP002\<close> error. A call that is served from the
  cache does not look at the dependencies of the metadata it is given: the cache key is
  the plugin id and version alone. A manager that has validated a plugin before its
  dependencies were filled in returns that cached valid result, with no error, for the
  same plugin with a Runtime Required \<open>numpy>=1.20.0\<close>.
\<close>

theorem stale_cache_hides_incompatible_dependency:
  "(''numpy'', numpy_spec) \<in> set (md_dependencies sample_plugin_metadata)
   \<and> spec_scope numpy_spec = RUNTIME \<and> spec_type numpy_spec = REQUIRED
   \<and> (\<exists>specifier. ext_Requirement sample_ext (''numpy'' @ spec_version numpy_spec)
                      = Returns specifier \<and> \<not> specifier (Version ''0.0.0''))
   \<and> vr_result stale_run = \<lparr>is_valid = True, errors = [], warnings = []\<rparr>
   \<and> vr_errors stale_run = []"
proof -
  have "ext_Requirement sample_ext (''numpy'' @ spec_version numpy_spec)
       = Returns (\<lambda>v. v \<in> set [Version ''1.20.0'', Version ''1.21.0''])"
    by (simp add: sample_ext_def numpy_spec_def sample_Requirement_def)
  then have "\<exists>specifier. ext_Requirement sample_ext (''numpy'' @ spec_version numpy_spec)
                      = Returns specifier \<and> \<not> specifier (Version ''0.0.0'')"
    by simp
  moreover have sr: "stale_run =
      \<lparr>vr_result = \<lparr>is_valid = True, errors = [], warnings = []\<rparr>,
       vr_manager = (DependencyManager_init None)
        \<lparr>validation_cache := (\<lambda>k. None)((''test-plugin'', ''1.0.0'') :=
            Some (\<lparr>is_valid = True, errors = [], warnings = []\<rparr>, 0))\<rparr>,
       vr_clock = 2, vr_errors = [], vr_warnings = [], vr_lookups = []\<rparr>"
    unfolding stale_run_def bare_run
    by (simp add: validate_dependencies_def sample_plugin_metadata_def
        DependencyManager_init_def DependencyConfig_default_def sample_ext_def numeral_2_eq_2)
  moreover have "vr_result stale_run = \<lparr>is_valid = True, errors = [], warnings = []\<rparr>"
    "vr_errors stale_run = []"
    by (simp_all add: sr)
  moreover have "(''numpy'', numpy_spec) \<in> set (md_dependencies sample_plugin_metadata)"
    "spec_scope numpy_spec = RUNTIME" "spec_type numpy_spec = REQUIRED"
    by (simp_all add: sample_plugin_metadata_def numpy_spec_def)
  ultimately show ?thesis by blast
qed

text \<open>
  Claim C10, amended. \<open>_get_installed_version\<close> returns version 0.0.0 for every package
  name: it never reports a package as absent and never raises. So no call of
  \<open>validate_dependencies\<close> emits a \<open>DEP001\<close> error (every error it builds is \<open>DEP002\<close> or
  \<open>DEP003\<close>) or a not-installed warning (every warning it builds is the version-mismatch
  warning of a declared dependency); and whenever the result is computed rather than
  served from the validation cache, every Runtime Required dependency whose requirement
  parses and excludes 0.0.0 yields a \<open>DEP002\<close> error, whose text is among the errors of
  the result, and the result is not valid.
\<close>

theorem placeholder_installed_version:
  "get_installed_version package_name = Returns (Some (Version ''0.0.0''))
   \<and> (\<forall>e \<in> set (vr_errors (validate_dependencies ext self clk m)).
         er_code e \<noteq> ''DEP001'' \<and> (er_code e = ''DEP002'' \<or> er_code e = ''DEP003''))
   \<and> (\<forall>w \<in> set (vr_warnings (validate_dependencies ext self clk m)).
         \<exists>item \<in> set (md_dependencies m).
           w = mismatch_warning (fst item) (Version ''0.0.0'') (snd item))
   \<and> (\<not> served_from_cache ext self clk m \<and>
       (dep_name, dep_spec) \<in> set (md_dependencies m) \<and>
       spec_scope dep_spec = RUNTIME \<and> spec_type dep_spec = REQUIRED \<and>
       ext_Requirement ext (dep_name @ spec_version dep_spec) = Returns specifier \<and>
       \<not> specifier (Version ''0.0.0'')
       \<longrightarrow> (\<exists>ts. dep002 (md_id m) dep_name dep_spec (Version ''0.0.0'') ts
                    \<in> set (vr_errors (validate_dependencies ext self clk m))
                \<and> ext_str ext (dep002 (md_id m) dep_name dep_spec (Version ''0.0.0'') ts)
                    \<in> set (errors (vr_result (validate_dependencies ext self clk m))))
           \<and> \<not> is_valid (vr_result (validate_dependencies ext self clk m)))"
proof (intro conjI impI)
  show "get_installed_version package_name = Returns (Some (Version ''0.0.0''))"
    by (simp add: get_installed_version_def)
  show "\<forall>e \<in> set (vr_errors (validate_dependencies ext self clk m)).
         er_code e \<noteq> ''DEP001'' \<and> (er_code e = ''DEP002'' \<or> er_code e = ''DEP003'')"
    using validate_emits [of ext self clk m] by auto
  show "\<forall>w \<in> set (vr_warnings (validate_dependencies ext self clk m)).
         \<exists>item \<in> set (md_dependencies m).
           w = mismatch_warning (fst item) (Version ''0.0.0'') (snd item)"
    using validate_emits [of ext self clk m] by blast
next
  assume h: "\<not> served_from_cache ext self clk m \<and>
       (dep_name, dep_spec) \<in> set (md_dependencies m) \<and>
       spec_scope dep_spec = RUNTIME \<and> spec_type dep_spec = REQUIRED \<and>
       ext_Requirement ext (dep_name @ spec_version dep_spec) = Returns specifier \<and>
       \<not> specifier (Version ''0.0.0'')"
  define c where "c = (case validation_cache self (md_id m, md_version m) of
                None \<Rightarrow> clk | Some e \<Rightarrow> Suc clk)"
  have run: "validate_dependencies ext self clk m = compute_validation ext self c m"
    using h validate_miss [of ext self clk m] by (simp add: c_def)
  from h have "\<exists>ts. dep002 (md_id m) (fst (dep_name, dep_spec)) (snd (dep_name, dep_spec))
                  (Version ''0.0.0'') ts
           \<in> set (cs_errors (check_dependencies ext (md_id m) (md_dependencies m)
                 \<lparr>cs_errors = [], cs_warnings = [], cs_clock = c, cs_lookups = []\<rparr>))"
    by (intro check_dependencies_dep002 [where specifier = specifier]) simp_all
  then obtain ts where ts: "dep002 (md_id m) dep_name dep_spec (Version ''0.0.0'') ts
      \<in> set (vr_errors (compute_validation ext self c m))"
    unfolding compute_validation_fields(5) by auto
  then have ne: "vr_errors (compute_validation ext self c m) \<noteq> []" by auto
  show "\<exists>ts. dep002 (md_id m) dep_name dep_spec (Version ''0.0.0'') ts
                    \<in> set (vr_errors (validate_dependencies ext self clk m))
                \<and> ext_str ext (dep002 (md_id m) dep_name dep_spec (Version ''0.0.0'') ts)
                    \<in> set (errors (vr_result (validate_dependencies ext self clk m)))"
    unfolding run using ts by (subst compute_validation_fields(1)) auto
  show "\<not> is_valid (vr_result (validate_dependencies ext self clk m))"
    unfolding run using ne by (subst compute_validation_fields(1)) simp
qed


theorem placeholder_installed_version_witness:
  "\<not> served_from_cache sample_ext (DependencyManager_init None) 0 sample_plugin_metadata
   \<and> (''numpy'', numpy_spec) \<in> set (md_dependencies sample_plugin_metadata)
   \<and> spec_scope numpy_spec = RUNTIME \<and> spec_type numpy_spec = REQUIRED
   \<and> ext_Requirement sample_ext (''numpy'' @ spec_version numpy_spec)
       = Returns (\<lambda>v. v \<in> set [Version ''1.20.0'', Version ''1.21.0''])
   \<and> Version ''0.0.0'' \<notin> set [Version ''1.20.0'', Version ''1.21.0'']
   \<and> (\<exists>ts. dep002 (md_id sample_plugin_metadata) ''numpy'' numpy_spec (Version ''0.0.0'') ts
          \<in> set (vr_errors (validate_dependencies sample_ext (DependencyManager_init None) 0
                              sample_plugin_metadata)))
   \<and> \<not> is_valid (vr_result (validate_dependencies sample_ext (DependencyManager_init None) 0
                               sample_plugin_metadata))"
proof -
  have h1: "\<not> served_from_cache sample_ext (DependencyManager_init None) 0 sample_plugin_metadata"
    by (rule fresh_manager_not_served)
  have h2: "(''numpy'', numpy_spec) \<in> set (md_dependencies sample_plugin_metadata)"
    by (simp add: sample_plugin_metadata_def)
  have h3: "spec_scope numpy_spec = RUNTIME \<and> spec_type numpy_spec = REQUIRED"
    by (simp add: numpy_spec_def)
  have h4: "ext_Requirement sample_ext (''numpy'' @ spec_version numpy_spec)
       = Returns (\<lambda>v. v \<in> set [Version ''1.20.0'', Version ''1.21.0''])"
    by (simp add: sample_ext_def numpy_spec_def sample_Requirement_def)
  have h5: "Version ''0.0.0'' \<notin> set [Version ''1.20.0'', Version ''1.21.0'']" by simp
  show ?thesis
    using h1 h2 h3 h4 h5
      placeholder_installed_version [of "''numpy''" sample_ext "DependencyManager_init None" 0
        sample_plugin_metadata "''numpy''" numpy_spec
        "\<lambda>v. v \<in> set [Version ''1.20.0'', Version ''1.21.0'']"]
    by blast
qed


end
